theory Spec2Isabelle
  imports Main
begin

section \<open>Syntax trees\<close>

text \<open>
  The engine reads a tree built by the TypeScript parser: every node has a kind, its source
  text, a start position and the ordered children that \<^verbatim>\<open>getChildren()\<close> returns (tokens
  included). The kinds the sources test for have a constructor each; three operator tokens
  serve the examples; every other kind is \<open>OtherKind\<close> with its name.
\<close>

datatype SyntaxKind =
    OpenParenToken | CloseParenToken
  | QuestionToken | ColonToken | EqualsToken
  | AmpersandAmpersandToken | BarBarToken
  | Identifier
  | IfKeyword | ElseKeyword | DoKeyword | WhileKeyword | FunctionKeyword
  | CatchClause | ConditionalExpression | DoStatement | ForInStatement | ForOfStatement
  | ForStatement | IfStatement | SwitchStatement | WhileStatement | BreakStatement
  | ContinueStatement | BinaryExpression | CallExpression | NewExpression
  | ParenthesizedExpression
  | ArrowFunction | FunctionDeclaration | FunctionExpression | MethodDeclaration
  | GetAccessor | SetAccessor | ClassDeclaration | ModuleDeclaration
  | VariableDeclaration
  | SyntaxList
  | OtherKind string

datatype Node =
  Node (kind: SyntaxKind) (getText: string) (pos: "nat \<times> nat") (getChildren: "Node list")

text \<open>
  What the engine can throw. \<open>UnreachableNodeState\<close> is the class of
  \<^verbatim>\<open>util/node-util\<close>, thrown with the node and a message; \<open>UnexpectedNodeError\<close> is
  the class of the first engine; \<open>TypeError\<close> is what JavaScript raises when a property
  of \<^verbatim>\<open>undefined\<close> is read (a child that is not there); \<open>IteratorDone\<close> is
  \<^verbatim>\<open>throwingIterator\<close> asked for a child past the last one.
\<close>

datatype error =
    UnreachableNodeState Node string
  | UnexpectedNodeError Node
  | TypeError
  | IteratorDone

text \<open>
  \<^verbatim>\<open>node.getChildAt(i)\<close> is \<^verbatim>\<open>node.getChildren()[i]\<close>: \<^verbatim>\<open>undefined\<close> (here
  \<open>None\<close>) when \<open>i\<close> is not an index of the array, \<open>-1\<close> included.
\<close>

definition getChildAt :: "Node \<Rightarrow> int \<Rightarrow> Node option" where
  "getChildAt node i =
     (if 0 \<le> i \<and> nat i < length (getChildren node) then Some (getChildren node ! nat i)
      else None)"

text \<open>\<^verbatim>\<open>Array.prototype.findIndex\<close>: the first index whose element passes, or \<open>-1\<close>.\<close>

fun findIndex :: "('a \<Rightarrow> bool) \<Rightarrow> 'a list \<Rightarrow> int" where
  "findIndex p [] = - 1"
| "findIndex p (x # xs) =
     (if p x then 0 else (let i = findIndex p xs in if i = - 1 then - 1 else i + 1))"

definition isIdentifier :: "Node \<Rightarrow> bool" where
  "isIdentifier node = (kind node = Identifier)"

definition isAccessor :: "Node \<Rightarrow> bool" where
  "isAccessor node = (kind node = GetAccessor \<or> kind node = SetAccessor)"

section \<open>Name resolution\<close>

text \<open>
  Modelled from the spec: \<^verbatim>\<open>isFunctionNode\<close> of \<^verbatim>\<open>node-inspection\<close>, which is not
  among the sources. The spec (4.1): true "for function declarations, function expressions,
  arrow functions, methods, and accessors (getter/setter)"; these are the kinds
  \<^verbatim>\<open>getFunctionNodeName\<close> recognises.
\<close>

definition isFunctionNode :: "Node \<Rightarrow> bool" where
  "isFunctionNode node =
     (kind node = FunctionDeclaration \<or> kind node = FunctionExpression
      \<or> kind node = ArrowFunction \<or> kind node = MethodDeclaration \<or> isAccessor node)"

text \<open>
  Modelled from the spec: \<^verbatim>\<open>getIdentifier\<close> of \<^verbatim>\<open>node-inspection\<close>, which is not
  among the sources. The spec (4.2) speaks of a method's or a class declaration's "identifier",
  which may be absent: the text of the node's first identifier child, if it has one.
\<close>

definition getIdentifier :: "Node \<Rightarrow> string option" where
  "getIdentifier node = map_option getText (find isIdentifier (getChildren node))"

lemma child_size: "c \<in> set (getChildren node) \<Longrightarrow> size c < size node"
proof (cases node)
  case (Node k t p cs)
  assume "c \<in> set (getChildren node)"
  with Node have "c \<in> set cs" by simp
  then have "size c \<le> size_list size cs" by (rule size_list_estimation') simp
  with Node show ?thesis by simp
qed

lemma getChildAt_mem: "getChildAt node i = Some c \<Longrightarrow> c \<in> set (getChildren node)"
  by (auto simp: getChildAt_def split: if_splits)

lemma getChildAt_size: "getChildAt node i = Some c \<Longrightarrow> size c < size node"
  by (rule child_size) (rule getChildAt_mem)

function getIdentifierDespiteBrackets :: "Node \<Rightarrow> error + string option" where
  "getIdentifierDespiteBrackets node =
     (if isIdentifier node then Inr (Some (getText node))
      else if kind node = ParenthesizedExpression then
        (case getChildAt node 1 of
           None \<Rightarrow> Inl TypeError
         | Some inside \<Rightarrow> getIdentifierDespiteBrackets inside)
      else Inr None)"
  by pat_completeness auto
termination
  by (relation "measure size") (auto dest: getChildAt_size)

declare getIdentifierDespiteBrackets.simps [simp del]

definition getCalledFunctionName :: "Node \<Rightarrow> error + string" where
  "getCalledFunctionName node =
     (case getChildAt node 0 of
        None \<Rightarrow> Inl TypeError
      | Some expressionToCall \<Rightarrow>
          (case getIdentifierDespiteBrackets expressionToCall of
             Inl e \<Rightarrow> Inl e
           | Inr name \<Rightarrow> Inr (case name of None \<Rightarrow> '''' | Some n \<Rightarrow> n)))"

definition getClassDeclarationName :: "Node \<Rightarrow> string" where
  "getClassDeclarationName node = (case getIdentifier node of None \<Rightarrow> '''' | Some n \<Rightarrow> n)"

definition getFunctionNodeName :: "Node \<Rightarrow> string option \<Rightarrow> error + string" where
  "getFunctionNodeName func variableBeingDefined =
     (if isAccessor func then
        (case getChildAt func 1 of None \<Rightarrow> Inl TypeError | Some c \<Rightarrow> Inr (getText c))
      else if kind func = ArrowFunction then
        Inr (case variableBeingDefined of None \<Rightarrow> '''' | Some v \<Rightarrow> v)
      else if kind func = FunctionDeclaration then
        (let functionKeywordIndex =
               findIndex (\<lambda>node. kind node = FunctionKeyword) (getChildren func)
         in case getChildAt func (functionKeywordIndex + 1) of
              None \<Rightarrow> Inl TypeError
            | Some identifier \<Rightarrow> Inr (getText identifier))
      else if kind func = FunctionExpression then
        (case getChildAt func 1 of
           None \<Rightarrow> Inl TypeError
         | Some maybeIdentifier \<Rightarrow>
             if isIdentifier maybeIdentifier then Inr (getText maybeIdentifier)
             else Inr (case variableBeingDefined of None \<Rightarrow> '''' | Some v \<Rightarrow> v))
      else if kind func = MethodDeclaration then
        (case getIdentifier func of
           Some name \<Rightarrow> Inr name
         | None \<Rightarrow> Inl (UnreachableNodeState func ''Method has no identifier.''))
      else Inl (UnreachableNodeState func ''FunctionNode is not of a recognised type.''))"

definition getModuleDeclarationName :: "Node \<Rightarrow> error + string" where
  "getModuleDeclarationName node =
     (case find isIdentifier (getChildren node) of
        None \<Rightarrow> Inl (UnreachableNodeState node ''Module declaration has no identifier.'')
      | Some moduleIdentifier \<Rightarrow> Inr (getText moduleIdentifier))"


section \<open>Output of the engine\<close>

text \<open>
  A \<^verbatim>\<open>FunctionOutput\<close> is built as
  \<^verbatim>\<open>{...getColumnAndLine(child), ...childCost, name}\<close>: a name, a position, and the
  score and inner containers of the child. \<^verbatim>\<open>ScoreAndInner\<close> is what \<^verbatim>\<open>nodeCost\<close>
  returns, and \<^verbatim>\<open>FileOutput\<close> has the same two fields. A score is a JavaScript number
  that only ever receives \<open>1\<close> or a depth: an integer.
\<close>

datatype FunctionOutput =
  FunctionOutput (functionName: string) (column: nat) (line: nat) (functionScore: int)
    (functionInner: "FunctionOutput list")

record ScoreAndInner =
  inner :: "FunctionOutput list"
  score :: int

type_synonym FileOutput = ScoreAndInner

text \<open>
  Modelled from the spec: \<^verbatim>\<open>getColumnAndLine\<close> of \<^verbatim>\<open>node-inspection\<close>, which is not
  among the sources. The spec (3, 6): a node has "a source position (line, column)", supplied by
  the parser; here the node carries it as (column, line).
\<close>

definition getColumnAndLine :: "Node \<Rightarrow> nat \<times> nat" where
  "getColumnAndLine node = pos node"

section \<open>Child partitioner\<close>

record DepthOfChildren =
  same :: "Node list"
  below :: "Node list"

text \<open>
  Modelled from the spec: \<^verbatim>\<open>whereAreChildren\<close> of \<^verbatim>\<open>depth\<close>, which is not among the
  sources. The spec (4.3): for for/for-in/for-of "every child is scored at the loop's own
  depth"; for if/else, conditional expression, do/while and switch "the controlling condition
  or switch discriminant stays at same depth; the executed body/branch/case-list moves to
  below"; "for plain nodes (most expressions/statements) all children are same".
  The bodies are found by their position among the children, the layout the first engine walks:
  \<^verbatim>\<open>if ( cond ) then else alt\<close>, \<^verbatim>\<open>cond ? a : b\<close>, \<^verbatim>\<open>do body while ( cond )\<close>,
  \<^verbatim>\<open>while ( cond ) body\<close>, \<^verbatim>\<open>switch ( expr ) cases\<close>. Tokens stay in \<open>same\<close>.
\<close>

definition bodyPositions :: "SyntaxKind \<Rightarrow> nat list" where
  "bodyPositions k =
     (if k = IfStatement then [4, 6]
      else if k = ConditionalExpression then [2, 4]
      else if k = DoStatement then [1]
      else if k = WhileStatement \<or> k = SwitchStatement then [4]
      else [])"

fun partitionAt :: "nat list \<Rightarrow> nat \<Rightarrow> Node list \<Rightarrow> DepthOfChildren" where
  "partitionAt bodies i [] = \<lparr>same = [], below = []\<rparr>"
| "partitionAt bodies i (c # cs) =
     (let r = partitionAt bodies (i + 1) cs
      in if i \<in> set bodies then r\<lparr>below := c # below r\<rparr> else r\<lparr>same := c # same r\<rparr>)"

definition whereAreChildren :: "Node \<Rightarrow> DepthOfChildren" where
  "whereAreChildren node = partitionAt (bodyPositions (kind node)) 0 (getChildren node)"

lemma partitionAt_subset:
  "set (same (partitionAt bodies i cs)) \<union> set (below (partitionAt bodies i cs)) \<subseteq> set cs"
  by (induction cs arbitrary: i) (auto simp: Let_def)

lemma whereAreChildren_same_size:
  "c \<in> set (same (whereAreChildren node)) \<Longrightarrow> size c < size node"
  using partitionAt_subset [of "bodyPositions (kind node)" 0 "getChildren node"]
  by (auto simp: whereAreChildren_def intro: child_size)

lemma whereAreChildren_below_size:
  "c \<in> set (below (whereAreChildren node)) \<Longrightarrow> size c < size node"
  using partitionAt_subset [of "bodyPositions (kind node)" 0 "getChildren node"]
  by (auto simp: whereAreChildren_def intro: child_size)

section \<open>The scoring engine\<close>

text \<open>
  \<^verbatim>\<open>isBreakOrContinueToLabel\<close>: a break or continue statement one of whose children is an
  identifier (the label).
\<close>

definition isBreakOrContinueToLabel :: "Node \<Rightarrow> bool" where
  "isBreakOrContinueToLabel node =
     ((kind node = BreakStatement \<or> kind node = ContinueStatement)
      \<and> list_ex isIdentifier (getChildren node))"

text \<open>
  Modelled from the spec: \<^verbatim>\<open>isNamedDeclarationOfContainer\<close> and
  \<^verbatim>\<open>getDeclarationName\<close> of \<^verbatim>\<open>node-inspection\<close>, which are not among the sources.
  The spec (4.4, step 4): the context is extended with "this node's own resolved name if it is
  a container-introducing or function-like node with a resolvable name"; container-introducing
  (4.1) are "classes, modules/namespaces"; and (4.4, step 5; 8) an anonymous function takes
  "the parent's trailing named-ancestor entry as the naming hint", so that the arrow function of
  \<^verbatim>\<open>const handler = () => {...}\<close> "resolves its container name to handler": the variable
  declaration that holds a function puts its name in the context. The function-like nodes
  are the second branch of \<^verbatim>\<open>maybeAddNodeToNamedAncestors\<close>; these two serve the first:
  a variable declaration one of whose children is a function, named by its first child (as
  \<^verbatim>\<open>getNameIfNameDeclaration\<close> names it), and a class or module declaration that has
  an identifier, named by it.
\<close>

definition declaredName :: "Node \<Rightarrow> string option" where
  "declaredName node =
     (if kind node = VariableDeclaration \<and> list_ex isFunctionNode (getChildren node) then
        map_option getText (getChildAt node 0)
      else if kind node = ClassDeclaration \<or> kind node = ModuleDeclaration then
        getIdentifier node
      else None)"

definition isNamedDeclarationOfContainer :: "Node \<Rightarrow> bool" where
  "isNamedDeclarationOfContainer node = (declaredName node \<noteq> None)"

definition getDeclarationName :: "Node \<Rightarrow> string" where
  "getDeclarationName node = (case declaredName node of None \<Rightarrow> '''' | Some n \<Rightarrow> n)"

definition maybeAddNodeToNamedAncestors :: "Node \<Rightarrow> string list \<Rightarrow> error + string list" where
  "maybeAddNodeToNamedAncestors node ancestorsOfNode =
     (if isNamedDeclarationOfContainer node then
        Inr (ancestorsOfNode @ [getDeclarationName node])
      else if isFunctionNode node then
        (case getFunctionNodeName node None of
           Inl e \<Rightarrow> Inl e
         | Inr nodeNameIfCallable \<Rightarrow>
             if length nodeNameIfCallable \<noteq> 0 then Inr (ancestorsOfNode @ [nodeNameIfCallable])
             else Inr ancestorsOfNode)
      else Inr ancestorsOfNode)"

text \<open>
  The loop of \<^verbatim>\<open>nodeCost\<close> over \<^verbatim>\<open>namedAncestors\<close>: one increment at the first name
  that is the called one, then \<^verbatim>\<open>break\<close>.
\<close>

fun recursionIncrement :: "string \<Rightarrow> string list \<Rightarrow> int" where
  "recursionIncrement calledFunctionName [] = 0"
| "recursionIncrement calledFunctionName (name # names) =
     (if name = calledFunctionName then 1 else recursionIncrement calledFunctionName names)"

text \<open>
  The first block of \<^verbatim>\<open>nodeCost\<close> ("certain language features carry an inherent cost"),
  an if/else-if chain over the kind of the node: what it adds to the score. The binary
  expression's test reads \<^verbatim>\<open>node.parent.getChildAt(1)?.kind\<close> (\<^verbatim>\<open>undefined\<close> when the
  parent has no second child) and \<^verbatim>\<open>node.getChildAt(1).kind\<close>; when the two kinds are the
  same the chain goes on to the tests for a call and an if, which a binary expression fails.
\<close>

definition inherentIncrement :: "Node \<Rightarrow> Node \<Rightarrow> string list \<Rightarrow> error + int" where
  "inherentIncrement parent node namedAncestors =
     (if kind node = CatchClause
         \<or> kind node = ConditionalExpression
         \<or> kind node = DoStatement
         \<or> kind node = ForInStatement
         \<or> kind node = ForOfStatement
         \<or> kind node = ForStatement
         \<or> kind node = SwitchStatement
         \<or> kind node = WhileStatement
         \<or> isBreakOrContinueToLabel node
      then Inr 1
      else if kind node = BinaryExpression then
        (case getChildAt node 1 of
           None \<Rightarrow> Inl TypeError
         | Some operator \<Rightarrow>
             if map_option kind (getChildAt parent 1) \<noteq> Some (kind operator) then Inr 1
             else Inr 0)
      else if kind node = CallExpression then
        (case getCalledFunctionName node of
           Inl e \<Rightarrow> Inl e
         | Inr calledFunctionName \<Rightarrow> Inr (recursionIncrement calledFunctionName namedAncestors))
      else if kind node = IfStatement then
        (let children = getChildren node;
             elseIndex = findIndex (\<lambda>child. kind child = ElseKeyword) children
         in if elseIndex \<noteq> - 1 then
              (case getChildAt node (elseIndex + 1) of
                 None \<Rightarrow> Inl TypeError
               | Some afterElse \<Rightarrow> if kind afterElse = IfStatement then Inr 1 else Inr (1 + 1))
            else Inr 1)
      else Inr 0)"

text \<open>The second block ("increment for nesting level").\<close>

definition nestingIncrement :: "Node \<Rightarrow> Node \<Rightarrow> int \<Rightarrow> int" where
  "nestingIncrement parent node depth =
     (if depth > 0 then
        (if kind node = CatchClause
            \<or> kind node = ConditionalExpression
            \<or> kind node = DoStatement
            \<or> kind node = ForInStatement
            \<or> kind node = ForOfStatement
            \<or> kind node = ForStatement
            \<or> kind node = SwitchStatement
            \<or> kind node = WhileStatement
            \<or> (kind node = IfStatement \<and> kind parent \<noteq> IfStatement)
         then depth else 0)
      else 0)"

text \<open>
  \<^verbatim>\<open>child.parent\<close>, as the engine meets it on the way down. The parser sets the parent of a
  node to the syntax node that holds it; a \<open>SyntaxList\<close> is made by \<^verbatim>\<open>getChildren()\<close>
  to group a node's statements or arguments, and the nodes in it keep the list's own parent.
\<close>

definition parentOfChildren :: "Node \<Rightarrow> Node \<Rightarrow> Node" where
  "parentOfChildren parent node = (if kind node = SyntaxList then parent else node)"

definition lastOption :: "'a list \<Rightarrow> 'a option" where
  "lastOption xs = (if xs = [] then None else Some (last xs))"

text \<open>
  The closure \<^verbatim>\<open>aggregateScoreAndInnerForChildren\<close> of \<^verbatim>\<open>nodeCost\<close>. It updates the
  \<^verbatim>\<open>score\<close> and \<^verbatim>\<open>inner\<close> of the enclosing call, here the accumulator; \<open>cost\<close> is
  its call \<^verbatim>\<open>nodeCost(child, topLevel, localDepth, namedAncestorsOfChildren)\<close>.
\<close>

fun aggregateScoreAndInnerForChildren ::
  "(Node \<Rightarrow> error + ScoreAndInner) \<Rightarrow> string list \<Rightarrow> Node list \<Rightarrow> ScoreAndInner
   \<Rightarrow> error + ScoreAndInner" where
  "aggregateScoreAndInnerForChildren cost namedAncestorsOfChildren [] acc = Inr acc"
| "aggregateScoreAndInnerForChildren cost namedAncestorsOfChildren (child # rest) acc =
     (case cost child of
        Inl e \<Rightarrow> Inl e
      | Inr childCost \<Rightarrow>
          (let acc1 = acc\<lparr>score := score acc + score childCost\<rparr>;
               entry = (\<lambda>name. FunctionOutput name (fst (getColumnAndLine child))
                          (snd (getColumnAndLine child)) (score childCost) (inner childCost))
           in if isFunctionNode child then
                (case getFunctionNodeName child (lastOption namedAncestorsOfChildren) of
                   Inl e \<Rightarrow> Inl e
                 | Inr name \<Rightarrow>
                     aggregateScoreAndInnerForChildren cost namedAncestorsOfChildren rest
                       (acc1\<lparr>inner := inner acc1 @ [entry name]\<rparr>))
              else if kind child = ClassDeclaration then
                aggregateScoreAndInnerForChildren cost namedAncestorsOfChildren rest
                  (acc1\<lparr>inner := inner acc1 @ [entry (getClassDeclarationName child)]\<rparr>)
              else if kind child = ModuleDeclaration then
                (case getModuleDeclarationName child of
                   Inl e \<Rightarrow> Inl e
                 | Inr name \<Rightarrow>
                     aggregateScoreAndInnerForChildren cost namedAncestorsOfChildren rest
                       (acc1\<lparr>inner := inner acc1 @ [entry name]\<rparr>))
              else
                aggregateScoreAndInnerForChildren cost namedAncestorsOfChildren rest
                  (acc1\<lparr>inner := inner acc1 @ inner childCost\<rparr>)))"

lemma aggregateScoreAndInnerForChildren_cost:
  "(\<And>child. child \<in> set nodes \<Longrightarrow> cost child = cost' child) \<Longrightarrow>
   aggregateScoreAndInnerForChildren cost namedAncestorsOfChildren nodes acc
   = aggregateScoreAndInnerForChildren cost' namedAncestorsOfChildren nodes acc"
proof (induction nodes arbitrary: acc)
  case Nil
  show ?case by simp
next
  case (Cons child rest)
  have head: "cost child = cost' child" using Cons.prems by simp
  have tail: "\<And>a. aggregateScoreAndInnerForChildren cost namedAncestorsOfChildren rest a
                  = aggregateScoreAndInnerForChildren cost' namedAncestorsOfChildren rest a"
    using Cons.IH Cons.prems by simp
  show ?case by (simp add: head tail Let_def split: sum.splits)
qed

lemma aggregateScoreAndInnerForChildren_cong [fundef_cong]:
  assumes "namedAncestorsOfChildren = namedAncestorsOfChildren'" "nodes = nodes'" "acc = acc'"
    and "\<And>child. child \<in> set nodes' \<Longrightarrow> cost child = cost' child"
  shows "aggregateScoreAndInnerForChildren cost namedAncestorsOfChildren nodes acc
         = aggregateScoreAndInnerForChildren cost' namedAncestorsOfChildren' nodes' acc'"
  unfolding assms(1-3) using assms(4) by (rule aggregateScoreAndInnerForChildren_cost)

function nodeCost :: "Node \<Rightarrow> Node \<Rightarrow> bool \<Rightarrow> int \<Rightarrow> string list \<Rightarrow> error + ScoreAndInner" where
  "nodeCost parent node topLevel depth namedAncestors =
     (case inherentIncrement parent node namedAncestors of
        Inl e \<Rightarrow> Inl e
      | Inr inherent \<Rightarrow>
          (case maybeAddNodeToNamedAncestors node namedAncestors of
             Inl e \<Rightarrow> Inl e
           | Inr namedAncestorsOfChildren \<Rightarrow>
               (let own = \<lparr>inner = [], score = inherent + nestingIncrement parent node depth\<rparr>;
                    p = parentOfChildren parent node
                in if topLevel then
                     (case aggregateScoreAndInnerForChildren
                             (\<lambda>child. nodeCost p child topLevel depth namedAncestorsOfChildren)
                             namedAncestorsOfChildren (same (whereAreChildren node)) own of
                        Inl e \<Rightarrow> Inl e
                      | Inr acc \<Rightarrow>
                          aggregateScoreAndInnerForChildren
                            (\<lambda>child. nodeCost p child False depth namedAncestorsOfChildren)
                            namedAncestorsOfChildren (below (whereAreChildren node)) acc)
                   else
                     (case aggregateScoreAndInnerForChildren
                             (\<lambda>child. nodeCost p child False depth namedAncestorsOfChildren)
                             namedAncestorsOfChildren (same (whereAreChildren node)) own of
                        Inl e \<Rightarrow> Inl e
                      | Inr acc \<Rightarrow>
                          aggregateScoreAndInnerForChildren
                            (\<lambda>child. nodeCost p child False (depth + 1) namedAncestorsOfChildren)
                            namedAncestorsOfChildren (below (whereAreChildren node)) acc))))"
  by pat_completeness auto
termination
  by (relation "measure (\<lambda>(parent, node, topLevel, depth, namedAncestors). size node)")
     (auto intro: whereAreChildren_same_size whereAreChildren_below_size)

declare nodeCost.simps [simp del]

text \<open>
  \<^verbatim>\<open>Array.prototype.map\<close> with a callback that can throw: the first error leaves the loop.
\<close>

fun mapThrowing :: "('a \<Rightarrow> error + 'b) \<Rightarrow> 'a list \<Rightarrow> error + 'b list" where
  "mapThrowing f [] = Inr []"
| "mapThrowing f (x # xs) =
     (case f x of
        Inl e \<Rightarrow> Inl e
      | Inr y \<Rightarrow> (case mapThrowing f xs of Inl e \<Rightarrow> Inl e | Inr ys \<Rightarrow> Inr (y # ys)))"

definition fileCost :: "Node \<Rightarrow> error + FileOutput" where
  "fileCost file =
     (case mapThrowing (\<lambda>elem. nodeCost file elem True 0 []) (getChildren file) of
        Inl e \<Rightarrow> Inl e
      | Inr childCosts \<Rightarrow>
          Inr \<lparr>inner = concat (map inner childCosts),
               score = foldl (+) 0 (map score childCosts)\<rparr>)"

section \<open>The calls of a run\<close>

text \<open>
  The calls \<^verbatim>\<open>nodeCost(node, topLevel, depth, namedAncestors)\<close>, with the parent of the
  node, that a run of \<^verbatim>\<open>fileCost\<close> on a file can make: the call of \<^verbatim>\<open>fileCost\<close> for
  each child of the file, and the calls of the closure in a call that has passed its first
  block and \<^verbatim>\<open>maybeAddNodeToNamedAncestors\<close>, for the two buckets. (A call that an error
  in an earlier child prevents is among them too.)
\<close>

inductive callsOf :: "Node \<Rightarrow> Node \<Rightarrow> Node \<Rightarrow> bool \<Rightarrow> int \<Rightarrow> string list \<Rightarrow> bool"
  for sourceFileNode :: Node where
  fileChild:
    "elem \<in> set (getChildren sourceFileNode) \<Longrightarrow>
     callsOf sourceFileNode sourceFileNode elem True 0 []"
| sameChild:
    "callsOf sourceFileNode parent node topLevel depth namedAncestors \<Longrightarrow>
     inherentIncrement parent node namedAncestors = Inr inherent \<Longrightarrow>
     maybeAddNodeToNamedAncestors node namedAncestors = Inr namedAncestorsOfChildren \<Longrightarrow>
     child \<in> set (same (whereAreChildren node)) \<Longrightarrow>
     callsOf sourceFileNode (parentOfChildren parent node) child topLevel depth
       namedAncestorsOfChildren"
| belowChild:
    "callsOf sourceFileNode parent node topLevel depth namedAncestors \<Longrightarrow>
     inherentIncrement parent node namedAncestors = Inr inherent \<Longrightarrow>
     maybeAddNodeToNamedAncestors node namedAncestors = Inr namedAncestorsOfChildren \<Longrightarrow>
     child \<in> set (below (whereAreChildren node)) \<Longrightarrow>
     callsOf sourceFileNode (parentOfChildren parent node) child False
       (if topLevel then depth else depth + 1) namedAncestorsOfChildren"

code_pred callsOf .


section \<open>The first engine: \<^verbatim>\<open>calcFileCost\<close> and the \<^verbatim>\<open>NodeCost\<close> classes\<close>

text \<open>
  Of the first engine the scores are modelled: \<^verbatim>\<open>calcFileCost\<close> and the classes below
  stand for the \<^verbatim>\<open>score\<close> they return. The \<^verbatim>\<open>inner\<close> list of a \<^verbatim>\<open>NodeCost\<close> object
  is filled from other \<^verbatim>\<open>NodeCost\<close> objects only, and the name and position that
  \<^verbatim>\<open>calcElemCost\<close> attaches are read from the node; no score depends on them.

  A loop that adds to a score what a callback returns for each node, and stops at the first
  error: the body of \<^verbatim>\<open>calcFileCost\<close> and \<^verbatim>\<open>calcElemCost\<close>, and, with the callback
  \<^verbatim>\<open>include\<close>, \<^verbatim>\<open>includeAll\<close>.
\<close>

fun addScores :: "(Node \<Rightarrow> error + int) \<Rightarrow> Node list \<Rightarrow> int \<Rightarrow> error + int" where
  "addScores f [] sofar = Inr sofar"
| "addScores f (child # nodes) sofar =
     (case f child of Inl e \<Rightarrow> Inl e | Inr s \<Rightarrow> addScores f nodes (sofar + s))"

lemma addScores_cong [fundef_cong]:
  assumes "nodes = nodes'" "sofar = sofar'"
    and "\<And>child. child \<in> set nodes' \<Longrightarrow> f child = f' child"
  shows "addScores f nodes sofar = addScores f' nodes' sofar'"
  unfolding assms(1,2) using assms(3)
  by (induction nodes' arbitrary: sofar') (auto split: sum.splits)

text \<open>
  \<^verbatim>\<open>AbstractNodeCost\<close>: an object starts with the score 0, and \<^verbatim>\<open>include(node, depth)\<close>
  adds the score of \<^verbatim>\<open>new NodeCost(node, depth)\<close>, below the parameter \<open>include\<close>.
\<close>

definition includeAll ::
  "(Node \<Rightarrow> int \<Rightarrow> error + int) \<Rightarrow> Node list \<Rightarrow> int \<Rightarrow> int \<Rightarrow> error + int" where
  "includeAll include nodes depth sofar = addScores (\<lambda>child. include child depth) nodes sofar"

lemma includeAll_cong [fundef_cong]:
  assumes "nodes = nodes'" "depth = depth'" "sofar = sofar'"
    and "\<And>child. child \<in> set nodes' \<Longrightarrow> include child depth' = include' child depth'"
  shows "includeAll include nodes depth sofar = includeAll include' nodes' depth' sofar'"
  unfolding includeAll_def assms(1-3) using assms(4) by (intro addScores_cong) auto

text \<open>
  \<^verbatim>\<open>ConditionalExpressionCost\<close>. The test \<^verbatim>\<open>ts.isToken(child) && child.kind === K\<close> for
  a token kind \<open>K\<close> is the test of the kind. \<^verbatim>\<open>childNodesToAggregate.push()\<close> is called
  with no argument, so the list stays as it is.
\<close>

fun conditionalExpressionLoop ::
  "(Node \<Rightarrow> int \<Rightarrow> error + int) \<Rightarrow> int \<Rightarrow> Node list \<Rightarrow> Node list \<Rightarrow> int \<Rightarrow> error + int" where
  "conditionalExpressionLoop include depth [] childNodesToAggregate sofar =
     includeAll include childNodesToAggregate depth sofar"
| "conditionalExpressionLoop include depth (child # rest) childNodesToAggregate sofar =
     (if kind child = QuestionToken then
        (case includeAll include childNodesToAggregate depth sofar of
           Inl e \<Rightarrow> Inl e
         | Inr s \<Rightarrow> conditionalExpressionLoop include depth rest [] s)
      else if kind child = ColonToken then
        (case includeAll include childNodesToAggregate (depth + 1) sofar of
           Inl e \<Rightarrow> Inl e
         | Inr s \<Rightarrow> conditionalExpressionLoop include depth rest [] s)
      else conditionalExpressionLoop include depth rest childNodesToAggregate sofar)"

definition ConditionalExpressionCost ::
  "(Node \<Rightarrow> int \<Rightarrow> error + int) \<Rightarrow> Node \<Rightarrow> int \<Rightarrow> error + int" where
  "ConditionalExpressionCost include node depth =
     conditionalExpressionLoop include depth (getChildren node) [] 0"

text \<open>
  Modelled from the spec: \<^verbatim>\<open>throwingIterator\<close> of \<^verbatim>\<open>util\<close>, which is not among the
  sources. The spec (9): "manual iterator advancement ... an imperative walk that can throw on
  an unexpected shape". \<^verbatim>\<open>nextChild()\<close> returns the next child and moves on, and throws
  when there is none; the iterator is the list of the children not yet returned.
\<close>

definition nextChild :: "Node list \<Rightarrow> error + (Node \<times> Node list)" where
  "nextChild iter = (case iter of [] \<Rightarrow> Inl IteratorDone | child # rest \<Rightarrow> Inr (child, rest))"

definition DoStatementCost ::
  "(Node \<Rightarrow> int \<Rightarrow> error + int) \<Rightarrow> Node \<Rightarrow> int \<Rightarrow> error + int" where
  "DoStatementCost include node depth =
     (case nextChild (getChildren node) of
        Inl e \<Rightarrow> Inl e
      | Inr (child, iter1) \<Rightarrow>
          if kind child = DoKeyword then
            (case nextChild iter1 of
               Inl e \<Rightarrow> Inl e
             | Inr (block, iter2) \<Rightarrow>
                 (case include block (depth + 1) of
                    Inl e \<Rightarrow> Inl e
                  | Inr s1 \<Rightarrow>
                      (case nextChild iter2 of
                         Inl e \<Rightarrow> Inl e
                       | Inr (whileKeyword, iter3) \<Rightarrow>
                           (case nextChild iter3 of
                              Inl e \<Rightarrow> Inl e
                            | Inr (openParen, iter4) \<Rightarrow>
                                (case nextChild iter4 of
                                   Inl e \<Rightarrow> Inl e
                                 | Inr (condition, iter5) \<Rightarrow>
                                     (case include condition depth of
                                        Inl e \<Rightarrow> Inl e
                                      | Inr s2 \<Rightarrow> Inr (0 + s1 + s2)))))))
          else Inl (UnexpectedNodeError child))"

text \<open>The \<^verbatim>\<open>while (true)\<close> loop of \<^verbatim>\<open>IfStatementCost\<close>, from the iterator it has reached.\<close>

fun ifStatementLoop ::
  "(Node \<Rightarrow> int \<Rightarrow> error + int) \<Rightarrow> int \<Rightarrow> Node list \<Rightarrow> int \<Rightarrow> error + int" where
  "ifStatementLoop include depth [] sofar = Inl IteratorDone"
| "ifStatementLoop include depth (child # iter1) sofar =
     (if kind child = IfKeyword then
        (case iter1 of
           [] \<Rightarrow> Inl IteratorDone
         | openParen # iter2 \<Rightarrow>
             (case iter2 of
                [] \<Rightarrow> Inl IteratorDone
              | condition # iter3 \<Rightarrow>
                  (case include condition depth of
                     Inl e \<Rightarrow> Inl e
                   | Inr s \<Rightarrow> ifStatementLoop include depth iter3 (sofar + s))))
      else if kind child = CloseParenToken then
        (case iter1 of
           [] \<Rightarrow> Inl IteratorDone
         | thenNode # iter2 \<Rightarrow>
             (case include thenNode (depth + 1) of
                Inl e \<Rightarrow> Inl e
              | Inr s \<Rightarrow> ifStatementLoop include depth iter2 (sofar + s)))
      else if kind child = ElseKeyword then
        (case iter1 of
           [] \<Rightarrow> Inl IteratorDone
         | elseNode # iter2 \<Rightarrow>
             (case include elseNode (depth + 1) of
                Inl e \<Rightarrow> Inl e
              | Inr s \<Rightarrow> Inr (sofar + s)))
      else Inl (UnexpectedNodeError child))"

definition IfStatementCost ::
  "(Node \<Rightarrow> int \<Rightarrow> error + int) \<Rightarrow> Node \<Rightarrow> int \<Rightarrow> error + int" where
  "IfStatementCost include node depth = ifStatementLoop include depth (getChildren node) 0"

definition SwitchStatementCost ::
  "(Node \<Rightarrow> int \<Rightarrow> error + int) \<Rightarrow> Node \<Rightarrow> int \<Rightarrow> error + int" where
  "SwitchStatementCost include node depth =
     (case nextChild (getChildren node) of
        Inl e \<Rightarrow> Inl e
      | Inr (switchKeyword, iter1) \<Rightarrow>
          (case nextChild iter1 of
             Inl e \<Rightarrow> Inl e
           | Inr (openParen, iter2) \<Rightarrow>
               (case nextChild iter2 of
                  Inl e \<Rightarrow> Inl e
                | Inr (condition, iter3) \<Rightarrow>
                    (case include condition depth of
                       Inl e \<Rightarrow> Inl e
                     | Inr s1 \<Rightarrow>
                         (case nextChild iter3 of
                            Inl e \<Rightarrow> Inl e
                          | Inr (closeParen, iter4) \<Rightarrow>
                              (case nextChild iter4 of
                                 Inl e \<Rightarrow> Inl e
                               | Inr (cases, iter5) \<Rightarrow>
                                   (case include cases (depth + 1) of
                                      Inl e \<Rightarrow> Inl e
                                    | Inr s2 \<Rightarrow> Inr (0 + s1 + s2))))))))"

text \<open>
  \<^verbatim>\<open>WhileStatementCost\<close>. Its \<^verbatim>\<open>while (true)\<close> body is left in its first round on every
  path: the second \<^verbatim>\<open>if\<close> is not an \<^verbatim>\<open>else if\<close>, so after a \<^verbatim>\<open>while\<close> keyword and its
  condition the same child is tested for a closing parenthesis, and the \<^verbatim>\<open>else\<close> throws.
\<close>

definition WhileStatementCost ::
  "(Node \<Rightarrow> int \<Rightarrow> error + int) \<Rightarrow> Node \<Rightarrow> int \<Rightarrow> error + int" where
  "WhileStatementCost include node depth =
     (case nextChild (getChildren node) of
        Inl e \<Rightarrow> Inl e
      | Inr (child, iter1) \<Rightarrow>
          (case (if kind child = WhileKeyword then
                   (case nextChild iter1 of
                      Inl e \<Rightarrow> Inl e
                    | Inr (openParen, iter2) \<Rightarrow>
                        (case nextChild iter2 of
                           Inl e \<Rightarrow> Inl e
                         | Inr (condition, iter3) \<Rightarrow>
                             (case include condition depth of
                                Inl e \<Rightarrow> Inl e
                              | Inr s \<Rightarrow> Inr (0 + s, iter3))))
                 else Inr (0, iter1)) of
             Inl e \<Rightarrow> Inl e
           | Inr (sofar, iter) \<Rightarrow>
               if kind child = CloseParenToken then
                 (case nextChild iter of
                    Inl e \<Rightarrow> Inl e
                  | Inr (body, iter') \<Rightarrow>
                      (case include body (depth + 1) of
                         Inl e \<Rightarrow> Inl e
                       | Inr s \<Rightarrow> Inr (sofar + s)))
               else Inl (UnexpectedNodeError child)))"

text \<open>
  Each class calls \<open>include\<close> on children of its node only; the recursion of
  \<^verbatim>\<open>NodeCost\<close> through them ends for that reason.
\<close>

lemma conditionalExpressionLoop_include:
  "(\<And>c d. c \<in> set childNodesToAggregate \<Longrightarrow> include c d = include' c d) \<Longrightarrow>
   conditionalExpressionLoop include depth rest childNodesToAggregate sofar
   = conditionalExpressionLoop include' depth rest childNodesToAggregate sofar"
proof (induction rest arbitrary: childNodesToAggregate sofar)
  case Nil
  then show ?case by (simp cong: includeAll_cong)
next
  case (Cons child rest)
  have agg: "\<And>d s. includeAll include childNodesToAggregate d s
                   = includeAll include' childNodesToAggregate d s"
    using Cons.prems by (simp cong: includeAll_cong)
  have emptied: "\<And>s. conditionalExpressionLoop include depth rest [] s
                     = conditionalExpressionLoop include' depth rest [] s"
    by (rule Cons.IH) simp
  have kept: "conditionalExpressionLoop include depth rest childNodesToAggregate sofar
              = conditionalExpressionLoop include' depth rest childNodesToAggregate sofar"
    using Cons.prems by (rule Cons.IH)
  show ?case by (simp add: agg emptied kept split: sum.splits)
qed

lemma ConditionalExpressionCost_cong [fundef_cong]:
  assumes "node = node'" "depth = depth'"
    and "\<And>c d. c \<in> set (getChildren node') \<Longrightarrow> include c d = include' c d"
  shows "ConditionalExpressionCost include node depth
         = ConditionalExpressionCost include' node' depth'"
  unfolding ConditionalExpressionCost_def assms(1,2)
  by (rule conditionalExpressionLoop_include) simp

lemma DoStatementCost_cong [fundef_cong]:
  assumes "node = node'" "depth = depth'"
    and "\<And>c d. c \<in> set (getChildren node') \<Longrightarrow> include c d = include' c d"
  shows "DoStatementCost include node depth = DoStatementCost include' node' depth'"
  unfolding DoStatementCost_def assms(1,2) using assms(3)
  by (auto simp: nextChild_def split: list.splits sum.splits)

lemma ifStatementLoop_include:
  "(\<And>c d. c \<in> set iter \<Longrightarrow> incl c d = incl' c d) \<Longrightarrow>
   ifStatementLoop incl depth iter sofar = ifStatementLoop incl' depth iter sofar"
proof (induction incl depth iter sofar rule: ifStatementLoop.induct)
  case (1 incl depth sofar)
  show ?case by simp
next
  case (2 incl depth child iter1 sofar)
  have same_incl: "\<And>c d. c \<in> set iter1 \<Longrightarrow> incl c d = incl' c d"
    using "2.prems" by simp
  show ?case
  proof (cases iter1)
    case Nil
    then show ?thesis by simp
  next
    case outer: (Cons x iter2)
    show ?thesis
    proof (cases iter2)
      case Nil
      with outer same_incl "2.IH"(2) [OF _ _ outer] show ?thesis
        by (auto split: sum.splits)
    next
      case inner: (Cons y iter3)
      with outer same_incl "2.IH"(1) [OF _ outer inner] "2.IH"(2) [OF _ _ outer]
      show ?thesis
        by (auto split: sum.splits)
    qed
  qed
qed

lemma IfStatementCost_cong [fundef_cong]:
  assumes "node = node'" "depth = depth'"
    and "\<And>c d. c \<in> set (getChildren node') \<Longrightarrow> include c d = include' c d"
  shows "IfStatementCost include node depth = IfStatementCost include' node' depth'"
  unfolding IfStatementCost_def assms(1,2) using assms(3)
  by (rule ifStatementLoop_include)

lemma SwitchStatementCost_cong [fundef_cong]:
  assumes "node = node'" "depth = depth'"
    and "\<And>c d. c \<in> set (getChildren node') \<Longrightarrow> include c d = include' c d"
  shows "SwitchStatementCost include node depth = SwitchStatementCost include' node' depth'"
  unfolding SwitchStatementCost_def assms(1,2) using assms(3)
  by (auto simp: nextChild_def split: list.splits sum.splits)

lemma WhileStatementCost_cong [fundef_cong]:
  assumes "node = node'" "depth = depth'"
    and "\<And>c d. c \<in> set (getChildren node') \<Longrightarrow> include c d = include' c d"
  shows "WhileStatementCost include node depth = WhileStatementCost include' node' depth'"
  unfolding WhileStatementCost_def assms(1,2) using assms(3)
  by (auto simp: nextChild_def split: list.splits sum.splits)

text \<open>
  \<^verbatim>\<open>NodeCost.calculate\<close>: the inherent increment, the increment for the nesting level,
  then the children, by the kind of the node. A for loop, and below depth 0 a function, has
  an empty branch: its children are not visited.
\<close>

function NodeCost :: "Node \<Rightarrow> int \<Rightarrow> error + int" where
  "NodeCost node depth =
     (let inherent =
            (if kind node = CatchClause
                \<or> kind node = ConditionalExpression
                \<or> kind node = ForInStatement
                \<or> kind node = ForOfStatement
                \<or> kind node = ForStatement
                \<or> kind node = IfStatement
                \<or> kind node = SwitchStatement
                \<or> kind node = WhileStatement
                \<or> isBreakOrContinueToLabel node
             then 1 else 0);
          nesting =
            (if depth > 0 \<and>
                (kind node = ConditionalExpression
                 \<or> kind node = ForInStatement
                 \<or> kind node = ForOfStatement
                 \<or> kind node = ForStatement
                 \<or> kind node = IfStatement
                 \<or> kind node = SwitchStatement
                 \<or> kind node = WhileStatement)
             then depth else 0);
          sofar = 0 + inherent + nesting
      in if kind node = ForInStatement
            \<or> kind node = ForOfStatement
            \<or> kind node = ForStatement
            \<or> (depth \<noteq> 0
                \<and> (kind node = ArrowFunction
                    \<or> kind node = FunctionDeclaration
                    \<or> kind node = FunctionExpression
                    \<or> kind node = MethodDeclaration))
         then Inr sofar
         else if kind node = CatchClause then
           includeAll (\<lambda>child d. NodeCost child d) (getChildren node) (depth + 1) sofar
         else if kind node = ConditionalExpression then
           (case ConditionalExpressionCost (\<lambda>child d. NodeCost child d) node depth of
              Inl e \<Rightarrow> Inl e | Inr s \<Rightarrow> Inr (sofar + s))
         else if kind node = DoStatement then
           (case DoStatementCost (\<lambda>child d. NodeCost child d) node depth of
              Inl e \<Rightarrow> Inl e | Inr s \<Rightarrow> Inr (sofar + s))
         else if kind node = IfStatement then
           (case IfStatementCost (\<lambda>child d. NodeCost child d) node depth of
              Inl e \<Rightarrow> Inl e | Inr s \<Rightarrow> Inr (sofar + s))
         else if kind node = SwitchStatement then
           (case SwitchStatementCost (\<lambda>child d. NodeCost child d) node depth of
              Inl e \<Rightarrow> Inl e | Inr s \<Rightarrow> Inr (sofar + s))
         else if kind node = WhileStatement then
           (case WhileStatementCost (\<lambda>child d. NodeCost child d) node depth of
              Inl e \<Rightarrow> Inl e | Inr s \<Rightarrow> Inr (sofar + s))
         else includeAll (\<lambda>child d. NodeCost child d) (getChildren node) depth sofar)"
  by pat_completeness auto
termination
  by (relation "measure (\<lambda>(node, depth). size node)") (auto intro: child_size)

declare NodeCost.simps [simp del]

text \<open>
  \<^verbatim>\<open>calcElemCost\<close>: the elements of the children first, each at the default depth 0,
  then the \<^verbatim>\<open>NodeCost\<close> of the node itself.
\<close>

function calcElemCost :: "Node \<Rightarrow> int \<Rightarrow> error + int" where
  "calcElemCost node depth =
     (case addScores (\<lambda>child. calcElemCost child 0) (getChildren node) 0 of
        Inl e \<Rightarrow> Inl e
      | Inr sofar \<Rightarrow>
          (case NodeCost node depth of
             Inl e \<Rightarrow> Inl e
           | Inr nodeCostScore \<Rightarrow> Inr (sofar + nodeCostScore)))"
  by pat_completeness auto
termination
  by (relation "measure (\<lambda>(node, depth). size node)") (auto intro: child_size)

declare calcElemCost.simps [simp del]

definition calcFileCost :: "Node \<Rightarrow> error + int" where
  "calcFileCost file = addScores (\<lambda>child. calcElemCost child 0) (getChildren file) 0"

section \<open>Trees of the examples\<close>

text \<open>
  The trees of the examples, with the children \<^verbatim>\<open>getChildren()\<close> gives for each
  construct; positions are left at the origin.
\<close>

definition token :: "SyntaxKind \<Rightarrow> string \<Rightarrow> Node" where
  "token k t = Node k t (0, 0) []"

definition ident :: "string \<Rightarrow> Node" where
  "ident t = Node Identifier t (0, 0) []"

definition syntaxList :: "Node list \<Rightarrow> Node" where
  "syntaxList nodes = Node SyntaxList (concat (map getText nodes)) (0, 0) nodes"

definition sourceFile :: "Node list \<Rightarrow> Node" where
  "sourceFile statements =
     Node (OtherKind ''SourceFile'') (concat (map getText statements)) (0, 0)
       [syntaxList statements, token (OtherKind ''EndOfFileToken'') '''']"

definition block :: "Node list \<Rightarrow> Node" where
  "block statements =
     Node (OtherKind ''Block'') (''{'' @ concat (map getText statements) @ ''}'') (0, 0)
       [token (OtherKind ''OpenBraceToken'') ''{'', syntaxList statements,
        token (OtherKind ''CloseBraceToken'') ''}'']"

definition expressionStatement :: "Node \<Rightarrow> Node" where
  "expressionStatement e =
     Node (OtherKind ''ExpressionStatement'') (getText e @ '';'') (0, 0)
       [e, token (OtherKind ''SemicolonToken'') '';'']"

definition returnStatement :: "Node \<Rightarrow> Node" where
  "returnStatement e =
     Node (OtherKind ''ReturnStatement'') (''return '' @ getText e @ '';'') (0, 0)
       [token (OtherKind ''ReturnKeyword'') ''return'', e,
        token (OtherKind ''SemicolonToken'') '';'']"

definition ifStatement :: "Node \<Rightarrow> Node \<Rightarrow> Node" where
  "ifStatement condition thenStatement =
     Node IfStatement (''if ('' @ getText condition @ '') '' @ getText thenStatement) (0, 0)
       [token IfKeyword ''if'', token OpenParenToken ''('', condition,
        token CloseParenToken '')'', thenStatement]"

definition ifElseStatement :: "Node \<Rightarrow> Node \<Rightarrow> Node \<Rightarrow> Node" where
  "ifElseStatement condition thenStatement elseStatement =
     Node IfStatement
       (''if ('' @ getText condition @ '') '' @ getText thenStatement @ '' else ''
          @ getText elseStatement) (0, 0)
       [token IfKeyword ''if'', token OpenParenToken ''('', condition,
        token CloseParenToken '')'', thenStatement, token ElseKeyword ''else'', elseStatement]"

definition binaryExpression :: "Node \<Rightarrow> SyntaxKind \<Rightarrow> Node \<Rightarrow> Node" where
  "binaryExpression left operator right =
     Node BinaryExpression (getText left @ '' op '' @ getText right) (0, 0)
       [left, token operator ''op'', right]"

definition variableDeclaration :: "string \<Rightarrow> Node \<Rightarrow> Node" where
  "variableDeclaration v initializer =
     Node VariableDeclaration (v @ '' = '' @ getText initializer) (0, 0)
       [ident v, token EqualsToken ''='', initializer]"

definition parenthesized :: "Node \<Rightarrow> Node" where
  "parenthesized e =
     Node ParenthesizedExpression (''('' @ getText e @ '')'') (0, 0)
       [token OpenParenToken ''('', e, token CloseParenToken '')'']"

definition callExpression :: "Node \<Rightarrow> Node list \<Rightarrow> Node" where
  "callExpression callee arguments =
     Node CallExpression (getText callee @ ''()'') (0, 0)
       [callee, token OpenParenToken ''('', syntaxList arguments, token CloseParenToken '')'']"

definition newExpression :: "Node \<Rightarrow> Node list \<Rightarrow> Node" where
  "newExpression callee arguments =
     Node NewExpression (''new '' @ getText callee @ ''()'') (0, 0)
       [token (OtherKind ''NewKeyword'') ''new'', callee, token OpenParenToken ''('',
        syntaxList arguments, token CloseParenToken '')'']"

definition propertyAccess :: "Node \<Rightarrow> string \<Rightarrow> Node" where
  "propertyAccess object member =
     Node (OtherKind ''PropertyAccessExpression'') (getText object @ ''.'' @ member) (0, 0)
       [object, token (OtherKind ''DotToken'') ''.'', ident member]"

definition functionDeclaration :: "string \<Rightarrow> Node list \<Rightarrow> Node list \<Rightarrow> Node" where
  "functionDeclaration f parameters statements =
     Node FunctionDeclaration (''function '' @ f @ ''() '' @ getText (block statements)) (0, 0)
       [token FunctionKeyword ''function'', ident f, token OpenParenToken ''('',
        syntaxList parameters, token CloseParenToken '')'', block statements]"

definition methodDeclaration :: "Node list \<Rightarrow> Node" where
  "methodDeclaration nameNodes =
     Node MethodDeclaration (concat (map getText nameNodes) @ ''() {}'') (0, 0)
       (nameNodes @ [token OpenParenToken ''('', syntaxList [], token CloseParenToken '')'',
                     block []])"

definition moduleDeclaration :: "Node list \<Rightarrow> Node" where
  "moduleDeclaration nameNodes =
     Node ModuleDeclaration (''namespace '' @ concat (map getText nameNodes) @ '' {}'') (0, 0)
       (token (OtherKind ''NamespaceKeyword'') ''namespace'' # nameNodes
        @ [Node (OtherKind ''ModuleBlock'') ''{}'' (0, 0) []])"

definition catchClause :: "string \<Rightarrow> Node list \<Rightarrow> Node" where
  "catchClause v statements =
     Node CatchClause (''catch ('' @ v @ '') '' @ getText (block statements)) (0, 0)
       [token (OtherKind ''CatchKeyword'') ''catch'', token OpenParenToken ''('',
        Node VariableDeclaration v (0, 0) [ident v],
        token CloseParenToken '')'', block statements]"

definition variableStatement :: "Node list \<Rightarrow> Node" where
  "variableStatement declarations =
     Node (OtherKind ''VariableStatement'')
       (''const '' @ concat (map getText declarations) @ '';'') (0, 0)
       [Node (OtherKind ''VariableDeclarationList'')
          (''const '' @ concat (map getText declarations)) (0, 0)
          [token (OtherKind ''ConstKeyword'') ''const'', syntaxList declarations],
        token (OtherKind ''SemicolonToken'') '';'']"

definition arrowFunction :: "Node list \<Rightarrow> Node" where
  "arrowFunction statements =
     Node ArrowFunction (''() => '' @ getText (block statements)) (0, 0)
       [token OpenParenToken ''('', syntaxList [], token CloseParenToken '')'',
        token (OtherKind ''EqualsGreaterThanToken'') ''=>'', block statements]"

definition generatorDeclaration :: "string \<Rightarrow> Node list \<Rightarrow> Node" where
  "generatorDeclaration f statements =
     Node FunctionDeclaration (''function* '' @ f @ ''() '' @ getText (block statements)) (0, 0)
       [token FunctionKeyword ''function'', token (OtherKind ''AsteriskToken'') ''*'', ident f,
        token OpenParenToken ''('', syntaxList [], token CloseParenToken '')'',
        block statements]"

text \<open>
  A run \<^verbatim>\<open>a op b op c ...\<close> of one operator, as the parser nests it, to the left:
  \<open>sameOperatorRun op n\<close> has \<open>n + 1\<close> operators.
\<close>

fun sameOperatorRun :: "SyntaxKind \<Rightarrow> nat \<Rightarrow> Node" where
  "sameOperatorRun operator 0 = binaryExpression (ident ''a'') operator (ident ''b'')"
| "sameOperatorRun operator (Suc n) =
     binaryExpression (sameOperatorRun operator n) operator (ident ''c'')"

text \<open>The kinds of the operator tokens among the kinds of the model.\<close>

definition isOperatorToken :: "SyntaxKind \<Rightarrow> bool" where
  "isOperatorToken k =
     (k = AmpersandAmpersandToken \<or> k = BarBarToken \<or> k = EqualsToken
      \<or> (case k of OtherKind s \<Rightarrow> True | _ \<Rightarrow> False))"

text \<open>
  \<^verbatim>\<open>if (b) {} else {}\<close>, and \<^verbatim>\<open>if (a) {} else if (b) {} else {}\<close>, whose else
  statement it is.
\<close>

definition elseIfLink :: Node where
  "elseIfLink = ifElseStatement (ident ''b'') (block []) (block [])"

definition ifElseIfElse :: Node where
  "ifElseIfElse = ifElseStatement (ident ''a'') (block []) elseIfLink"

text \<open>\<^verbatim>\<open>if (a) {}\<close>, alone and in the body of another if: \<^verbatim>\<open>if (b) { if (a) {} }\<close>.\<close>

definition ifNoElse :: Node where
  "ifNoElse = ifStatement (ident ''a'') (block [])"

definition nestedIf :: Node where
  "nestedIf = ifStatement (ident ''b'') (block [ifNoElse])"

text \<open>\<^verbatim>\<open>a = b\<close>, the initializer of \<^verbatim>\<open>x = a = b\<close> in a variable declaration.\<close>

definition assignment :: Node where
  "assignment = binaryExpression (ident ''a'') EqualsToken (ident ''b'')"

text \<open>
  \<^verbatim>\<open>function fact() { return fact(); }\<close> and
  \<^verbatim>\<open>function fact() { return other(); }\<close>.
\<close>

definition factCallingFact :: Node where
  "factCallingFact =
     functionDeclaration ''fact'' [] [returnStatement (callExpression (ident ''fact'') [])]"

definition factCallingOther :: Node where
  "factCallingOther =
     functionDeclaration ''fact'' [] [returnStatement (callExpression (ident ''other'') [])]"

text \<open>The file \<^verbatim>\<open>a && b;\<close> and the call \<^verbatim>\<open>obj.m()\<close>.\<close>

definition conjunctionFile :: Node where
  "conjunctionFile =
     sourceFile [expressionStatement (sameOperatorRun AmpersandAmpersandToken 0)]"


text \<open>
  \<^verbatim>\<open>function* fact() { return fact(); }\<close> and
  \<^verbatim>\<open>function fact() { return obj.m(); }\<close>.
\<close>

definition generatorCallingItself :: Node where
  "generatorCallingItself =
     generatorDeclaration ''fact'' [returnStatement (callExpression (ident ''fact'') [])]"


text \<open>The score of a result, 0 for an error: what a sum over the children adds up.\<close>

definition scoreOf :: "error + ScoreAndInner \<Rightarrow> int" where
  "scoreOf r = (case r of Inl e \<Rightarrow> 0 | Inr c \<Rightarrow> score c)"

section \<open>Properties of the name resolution\<close>

lemma recursionIncrement_mem:
  "recursionIncrement calledFunctionName names
   = (if calledFunctionName \<in> set names then 1 else 0)"
  by (induction names) auto

lemma find_None_list_ex: "(find P xs = None) = (\<not> list_ex P xs)"
  by (induction xs) auto

lemma getIdentifierDespiteBrackets_Node:
  "getIdentifierDespiteBrackets (Node k t p cs) =
     (if k = Identifier then Inr (Some t)
      else if k = ParenthesizedExpression then
        (case getChildAt (Node k t p cs) 1 of
           None \<Rightarrow> Inl TypeError
         | Some inside \<Rightarrow> getIdentifierDespiteBrackets inside)
      else Inr None)"
  by (simp add: getIdentifierDespiteBrackets.simps [of "Node k t p cs"] isIdentifier_def)

lemma getIdentifierDespiteBrackets_parenthesized:
  "getIdentifierDespiteBrackets (parenthesized e) = getIdentifierDespiteBrackets e"
  by (simp add: getIdentifierDespiteBrackets_Node parenthesized_def getChildAt_def)

lemma getIdentifierDespiteBrackets_funpow:
  "getIdentifierDespiteBrackets ((parenthesized ^^ n) e) = getIdentifierDespiteBrackets e"
  by (induction n) (simp_all add: getIdentifierDespiteBrackets_parenthesized)

text \<open>
  C8. Name resolution raises \<open>UnreachableNodeState\<close> exactly when the identifier the grammar
  guarantees is absent. For a method declaration: with no identifier
  \<^verbatim>\<open>getFunctionNodeName\<close> raises, and with an identifier it returns that name. For a module
  declaration: with no identifier child \<^verbatim>\<open>getModuleDeclarationName\<close> raises, and with one
  it returns the text of an identifier child.
\<close>

theorem unreachable_state_exactly_when_identifier_absent:
  "(kind func = MethodDeclaration \<longrightarrow>
      (getIdentifier func = None \<longrightarrow>
         getFunctionNodeName func hint
         = Inl (UnreachableNodeState func ''Method has no identifier.''))
    \<and> (\<forall>n. getIdentifier func = Some n \<longrightarrow> getFunctionNodeName func hint = Inr n))
   \<and> (\<not> list_ex isIdentifier (getChildren node) \<longrightarrow>
         getModuleDeclarationName node
         = Inl (UnreachableNodeState node ''Module declaration has no identifier.''))
   \<and> (list_ex isIdentifier (getChildren node) \<longrightarrow>
         (\<exists>i \<in> set (getChildren node). isIdentifier i
            \<and> getModuleDeclarationName node = Inr (getText i)))"
proof (intro conjI impI allI)
  assume "kind func = MethodDeclaration" "getIdentifier func = None"
  then show "getFunctionNodeName func hint
             = Inl (UnreachableNodeState func ''Method has no identifier.'')"
    by (simp add: getFunctionNodeName_def isAccessor_def)
next
  fix n assume "kind func = MethodDeclaration" "getIdentifier func = Some n"
  then show "getFunctionNodeName func hint = Inr n"
    by (simp add: getFunctionNodeName_def isAccessor_def)
next
  assume "\<not> list_ex isIdentifier (getChildren node)"
  then have "find isIdentifier (getChildren node) = None"
    by (simp add: find_None_list_ex)
  then show "getModuleDeclarationName node
             = Inl (UnreachableNodeState node ''Module declaration has no identifier.'')"
    by (simp add: getModuleDeclarationName_def)
next
  assume "list_ex isIdentifier (getChildren node)"
  then obtain i where i: "find isIdentifier (getChildren node) = Some i"
    by (cases "find isIdentifier (getChildren node)") (auto simp: find_None_list_ex)
  then have "i \<in> set (getChildren node)" "isIdentifier i"
    by (auto simp: find_Some_iff)
  with i show "\<exists>i \<in> set (getChildren node). isIdentifier i
            \<and> getModuleDeclarationName node = Inr (getText i)"
    by (auto simp: getModuleDeclarationName_def)
qed

theorem unreachable_state_exactly_when_identifier_absent_witness:
  "getFunctionNodeName (methodDeclaration []) None
   = Inl (UnreachableNodeState (methodDeclaration []) ''Method has no identifier.'')
   \<and> getFunctionNodeName (methodDeclaration [ident ''m'']) None = Inr ''m''
   \<and> getModuleDeclarationName (moduleDeclaration [])
     = Inl (UnreachableNodeState (moduleDeclaration [])
              ''Module declaration has no identifier.'')
   \<and> getModuleDeclarationName (moduleDeclaration [ident ''N'']) = Inr ''N''"
  using unreachable_state_exactly_when_identifier_absent
          [of "methodDeclaration []" None "moduleDeclaration []"]
        unreachable_state_exactly_when_identifier_absent
          [of "methodDeclaration [ident ''m'']" None "moduleDeclaration [ident ''N'']"]
  by (simp add: methodDeclaration_def moduleDeclaration_def ident_def token_def
      syntaxList_def block_def getIdentifier_def isIdentifier_def)

text \<open>
  C9. The called name does not depend on parentheses around the call target: for every
  identifier \<open>f\<close> and every number \<open>n\<close> of parentheses around it, \<^verbatim>\<open>getCalledFunctionName\<close>
  returns the text \<open>f\<close>, as it does for the bare call; so the call gets the recursion
  increment exactly when \<open>f\<close> is one of the named ancestors.
\<close>

theorem called_name_despite_brackets:
  "getCalledFunctionName (callExpression ((parenthesized ^^ n) (ident f)) arguments) = Inr f
   \<and> getCalledFunctionName (callExpression ((parenthesized ^^ n) (ident f)) arguments)
     = getCalledFunctionName (callExpression (ident f) arguments)
   \<and> inherentIncrement parent (callExpression ((parenthesized ^^ n) (ident f)) arguments)
       namedAncestors
     = Inr (if f \<in> set namedAncestors then 1 else 0)"
proof -
  have bare: "getCalledFunctionName (callExpression (ident f) arguments) = Inr f"
    by (simp add: getCalledFunctionName_def callExpression_def getChildAt_def
        getIdentifierDespiteBrackets_Node ident_def)
  have bracketed:
    "getCalledFunctionName (callExpression ((parenthesized ^^ n) (ident f)) arguments) = Inr f"
    by (simp add: getCalledFunctionName_def callExpression_def getChildAt_def
        getIdentifierDespiteBrackets_funpow)
       (simp add: getIdentifierDespiteBrackets_Node ident_def)
  have call: "kind (callExpression ((parenthesized ^^ n) (ident f)) arguments) = CallExpression"
    by (simp add: callExpression_def)
  have "inherentIncrement parent (callExpression ((parenthesized ^^ n) (ident f)) arguments)
          namedAncestors
        = Inr (recursionIncrement f namedAncestors)"
    by (simp add: inherentIncrement_def call bracketed isBreakOrContinueToLabel_def)
  with bare bracketed show ?thesis
    by (simp add: recursionIncrement_mem)
qed

section \<open>Properties of the scoring engine\<close>

subsection \<open>What a call of \<^verbatim>\<open>nodeCost\<close> adds up\<close>

lemma aggregate_Inr:
  "aggregateScoreAndInnerForChildren cost anc nodes acc = Inr r \<Longrightarrow>
   (\<forall>c\<in>set nodes. \<exists>cc. cost c = Inr cc)
   \<and> score r = score acc + sum_list (map (\<lambda>c. scoreOf (cost c)) nodes)"
proof (induction nodes arbitrary: acc)
  case Nil
  then show ?case by simp
next
  case (Cons child rest)
  from Cons.prems obtain cc where cc: "cost child = Inr cc"
    by (cases "cost child") auto
  from Cons.prems cc obtain acc' where
    step: "aggregateScoreAndInnerForChildren cost anc rest acc' = Inr r"
    and acc': "score acc' = score acc + score cc"
    by (auto simp: Let_def split: if_splits sum.splits)
  from Cons.IH [OF step] cc acc' show ?case
    by (simp add: scoreOf_def)
qed

lemma nodeCost_score:
  assumes "nodeCost parent node topLevel depth namedAncestors = Inr r"
  shows "\<exists>inherent namedAncestorsOfChildren.
           inherentIncrement parent node namedAncestors = Inr inherent
         \<and> maybeAddNodeToNamedAncestors node namedAncestors = Inr namedAncestorsOfChildren
         \<and> (\<forall>c\<in>set (same (whereAreChildren node)).
               \<exists>cc. nodeCost (parentOfChildren parent node) c topLevel depth
                       namedAncestorsOfChildren = Inr cc)
         \<and> (\<forall>c\<in>set (below (whereAreChildren node)).
               \<exists>cc. nodeCost (parentOfChildren parent node) c False
                       (if topLevel then depth else depth + 1) namedAncestorsOfChildren = Inr cc)
         \<and> score r = inherent + nestingIncrement parent node depth
             + sum_list (map (\<lambda>c. scoreOf (nodeCost (parentOfChildren parent node) c topLevel
                                  depth namedAncestorsOfChildren)) (same (whereAreChildren node)))
             + sum_list (map (\<lambda>c. scoreOf (nodeCost (parentOfChildren parent node) c False
                                  (if topLevel then depth else depth + 1)
                                  namedAncestorsOfChildren)) (below (whereAreChildren node)))"
proof -
  from assms obtain inherent where
    inh: "inherentIncrement parent node namedAncestors = Inr inherent"
    by (cases "inherentIncrement parent node namedAncestors") (auto simp: nodeCost.simps)
  from assms inh obtain anc' where
    anc': "maybeAddNodeToNamedAncestors node namedAncestors = Inr anc'"
    by (cases "maybeAddNodeToNamedAncestors node namedAncestors") (auto simp: nodeCost.simps)
  let ?p = "parentOfChildren parent node"
  let ?own = "\<lparr>inner = [], score = inherent + nestingIncrement parent node depth\<rparr>"
  let ?d = "if topLevel then depth else depth + 1"
  from assms inh anc' obtain acc where
    first: "aggregateScoreAndInnerForChildren (\<lambda>child. nodeCost ?p child topLevel depth anc')
              anc' (same (whereAreChildren node)) ?own = Inr acc"
    and second: "aggregateScoreAndInnerForChildren (\<lambda>child. nodeCost ?p child False ?d anc')
              anc' (below (whereAreChildren node)) acc = Inr r"
    by (cases topLevel) (auto simp: nodeCost.simps [of parent node] Let_def split: sum.splits)
  from aggregate_Inr [OF first] aggregate_Inr [OF second] inh anc' show ?thesis
    by auto
qed

subsection \<open>Evaluation on a given tree\<close>

text \<open>
  The equation of \<^verbatim>\<open>nodeCost\<close> for a node that is given by its constructor: it unfolds
  a call on a tree of an example, and not the call on the bound child inside it.
\<close>

lemma nodeCost_Node:
  "nodeCost parent (Node k t ps cs) topLevel depth namedAncestors =
     (case inherentIncrement parent (Node k t ps cs) namedAncestors of
        Inl e \<Rightarrow> Inl e
      | Inr inherent \<Rightarrow>
          (case maybeAddNodeToNamedAncestors (Node k t ps cs) namedAncestors of
             Inl e \<Rightarrow> Inl e
           | Inr namedAncestorsOfChildren \<Rightarrow>
               (let own = \<lparr>inner = [],
                           score = inherent + nestingIncrement parent (Node k t ps cs) depth\<rparr>;
                    p = parentOfChildren parent (Node k t ps cs)
                in if topLevel then
                     (case aggregateScoreAndInnerForChildren
                             (\<lambda>child. nodeCost p child topLevel depth namedAncestorsOfChildren)
                             namedAncestorsOfChildren
                             (same (whereAreChildren (Node k t ps cs))) own of
                        Inl e \<Rightarrow> Inl e
                      | Inr acc \<Rightarrow>
                          aggregateScoreAndInnerForChildren
                            (\<lambda>child. nodeCost p child False depth namedAncestorsOfChildren)
                            namedAncestorsOfChildren
                            (below (whereAreChildren (Node k t ps cs))) acc)
                   else
                     (case aggregateScoreAndInnerForChildren
                             (\<lambda>child. nodeCost p child False depth namedAncestorsOfChildren)
                             namedAncestorsOfChildren
                             (same (whereAreChildren (Node k t ps cs))) own of
                        Inl e \<Rightarrow> Inl e
                      | Inr acc \<Rightarrow>
                          aggregateScoreAndInnerForChildren
                            (\<lambda>child. nodeCost p child False (depth + 1) namedAncestorsOfChildren)
                            namedAncestorsOfChildren
                            (below (whereAreChildren (Node k t ps cs))) acc))))"
  by (rule nodeCost.simps)

lemmas trees = token_def ident_def syntaxList_def sourceFile_def block_def
  expressionStatement_def returnStatement_def ifStatement_def ifElseStatement_def
  binaryExpression_def variableDeclaration_def parenthesized_def callExpression_def
  newExpression_def propertyAccess_def functionDeclaration_def methodDeclaration_def
  moduleDeclaration_def catchClause_def variableStatement_def arrowFunction_def
  generatorDeclaration_def

lemmas engine = nodeCost_Node inherentIncrement_def nestingIncrement_def
  maybeAddNodeToNamedAncestors_def whereAreChildren_def bodyPositions_def
  isNamedDeclarationOfContainer_def declaredName_def getDeclarationName_def
  isFunctionNode_def isAccessor_def
  isBreakOrContinueToLabel_def parentOfChildren_def getChildAt_def isIdentifier_def
  getCalledFunctionName_def getIdentifierDespiteBrackets_Node getFunctionNodeName_def
  getColumnAndLine_def lastOption_def Let_def

lemma nestedIf_topLevel:
  "nodeCost parent nestedIf True 0 namedAncestors = Inr \<lparr>inner = [], score = 2\<rparr>"
  by (simp add: nestedIf_def ifNoElse_def engine trees)

lemma nestedIf_not_topLevel:
  "nodeCost parent nestedIf False 0 namedAncestors = Inr \<lparr>inner = [], score = 3\<rparr>"
  by (simp add: nestedIf_def ifNoElse_def engine trees)

lemma fileCost_factCallingFact:
  "fileCost (sourceFile [factCallingFact])
   = Inr \<lparr>inner = [FunctionOutput ''fact'' 0 0 1 []], score = 1\<rparr>"
  by (simp add: factCallingFact_def fileCost_def engine trees)

subsection \<open>The if/else-if/else chain\<close>

text \<open>
  C1. Scored at depth 0, the chain \<^verbatim>\<open>if (a) {} else if (b) {} else {}\<close> yields 3, not 2:
  the leading if adds 1 (its else is followed by an if, so no increment for a solo else);
  the if of the else-if link adds 1 as every if does, and 1 for its own solo else, so the link
  scores 2 at every depth; as the else statement of an if it gets no nesting increment.
\<close>

theorem if_else_if_else_chain:
  "nodeCost parent ifElseIfElse topLevel 0 namedAncestors = Inr \<lparr>inner = [], score = 3\<rparr>
   \<and> inherentIncrement parent ifElseIfElse namedAncestors = Inr 1
   \<and> nodeCost ifElseIfElse elseIfLink linkTopLevel depth namedAncestors
     = Inr \<lparr>inner = [], score = 2\<rparr>
   \<and> inherentIncrement ifElseIfElse elseIfLink namedAncestors = Inr 2
   \<and> nestingIncrement ifElseIfElse elseIfLink depth = 0"
proof (intro conjI)
  show "nodeCost parent ifElseIfElse topLevel 0 namedAncestors
        = Inr \<lparr>inner = [], score = 3\<rparr>"
    by (simp add: ifElseIfElse_def elseIfLink_def engine trees)
  show "inherentIncrement parent ifElseIfElse namedAncestors = Inr 1"
    by (simp add: ifElseIfElse_def elseIfLink_def engine trees)
  show "nodeCost ifElseIfElse elseIfLink linkTopLevel depth namedAncestors
        = Inr \<lparr>inner = [], score = 2\<rparr>"
    by (simp add: ifElseIfElse_def elseIfLink_def engine trees)
  show "inherentIncrement ifElseIfElse elseIfLink namedAncestors = Inr 2"
    by (simp add: ifElseIfElse_def elseIfLink_def engine trees)
  show "nestingIncrement ifElseIfElse elseIfLink depth = 0"
    by (simp add: ifElseIfElse_def elseIfLink_def engine trees)
qed

text \<open>The chain as a top-level statement of its file does not score 2.\<close>

theorem if_else_if_else_chain_counterexample:
  "scoreOf (nodeCost (sourceFile [ifElseIfElse]) ifElseIfElse True 0 []) \<noteq> 2"
  by (simp add: scoreOf_def ifElseIfElse_def elseIfLink_def engine trees)

subsection \<open>Depth and \<^verbatim>\<open>topLevel\<close> of the children\<close>

text \<open>
  C2. A call of \<^verbatim>\<open>nodeCost\<close> that returns has scored every child in \<open>same\<close> at the
  current depth, with the \<^verbatim>\<open>topLevel\<close> it was given, and every child in \<open>below\<close> with
  \<^verbatim>\<open>topLevel = false\<close>: at depth + 1 when \<^verbatim>\<open>topLevel\<close> is false, and at the same depth
  (not depth + 1) when \<^verbatim>\<open>topLevel\<close> is true. Its score is its own two increments plus
  the scores of these calls.
\<close>

theorem children_depth_and_topLevel:
  assumes "nodeCost parent node topLevel depth namedAncestors = Inr r"
    and "inherentIncrement parent node namedAncestors = Inr inherent"
    and "maybeAddNodeToNamedAncestors node namedAncestors = Inr namedAncestorsOfChildren"
  shows "(\<forall>c\<in>set (same (whereAreChildren node)).
             \<exists>cc. nodeCost (parentOfChildren parent node) c topLevel depth
                     namedAncestorsOfChildren = Inr cc)
         \<and> (\<forall>c\<in>set (below (whereAreChildren node)).
               \<exists>cc. nodeCost (parentOfChildren parent node) c False
                       (if topLevel then depth else depth + 1) namedAncestorsOfChildren = Inr cc)
         \<and> score r = inherent + nestingIncrement parent node depth
             + sum_list (map (\<lambda>c. scoreOf (nodeCost (parentOfChildren parent node) c topLevel
                                  depth namedAncestorsOfChildren)) (same (whereAreChildren node)))
             + sum_list (map (\<lambda>c. scoreOf (nodeCost (parentOfChildren parent node) c False
                                  (if topLevel then depth else depth + 1)
                                  namedAncestorsOfChildren)) (below (whereAreChildren node)))"
  using nodeCost_score [OF assms(1)] assms(2,3) by auto

theorem children_depth_and_topLevel_witness:
  "score \<lparr>inner = [], score = 2\<rparr>
   = 1 + nestingIncrement (sourceFile [nestedIf]) nestedIf 0
       + sum_list (map (\<lambda>c. scoreOf (nodeCost (parentOfChildren (sourceFile [nestedIf]) nestedIf)
                               c True 0 [])) (same (whereAreChildren nestedIf)))
       + sum_list (map (\<lambda>c. scoreOf (nodeCost (parentOfChildren (sourceFile [nestedIf]) nestedIf)
                               c False (if True then 0 else 0 + 1) []))
                    (below (whereAreChildren nestedIf)))"
proof -
  have a: "nodeCost (sourceFile [nestedIf]) nestedIf True 0 [] = Inr \<lparr>inner = [], score = 2\<rparr>"
    by (rule nestedIf_topLevel)
  have b: "inherentIncrement (sourceFile [nestedIf]) nestedIf [] = Inr 1"
    by (simp add: nestedIf_def ifNoElse_def engine trees)
  have c: "maybeAddNodeToNamedAncestors nestedIf [] = Inr []"
    by (simp add: nestedIf_def ifNoElse_def engine trees)
  from children_depth_and_topLevel [OF a b c] show ?thesis by blast
qed

text \<open>
  For \<^verbatim>\<open>if (b) { if (a) {} }\<close> scored with \<^verbatim>\<open>topLevel = true\<close> at depth 0, the score is
  not the sum with the \<open>below\<close> children at depth 0 + 1.
\<close>

theorem below_children_of_topLevel_counterexample:
  "scoreOf (nodeCost (sourceFile [nestedIf]) nestedIf True 0 [])
   \<noteq> 1 + nestingIncrement (sourceFile [nestedIf]) nestedIf 0
       + sum_list (map (\<lambda>c. scoreOf (nodeCost (parentOfChildren (sourceFile [nestedIf]) nestedIf)
                               c True 0 [])) (same (whereAreChildren nestedIf)))
       + sum_list (map (\<lambda>c. scoreOf (nodeCost (parentOfChildren (sourceFile [nestedIf]) nestedIf)
                               c False (0 + 1) []))
                    (below (whereAreChildren nestedIf)))"
  by (simp add: nestedIf_def ifNoElse_def engine trees scoreOf_def)

subsection \<open>The nesting increment\<close>

text \<open>
  C3. The score of a call of \<^verbatim>\<open>nodeCost\<close> is its inherent increment, plus the depth
  when the depth is positive and the node is a catch clause, a conditional expression, a
  do/for-in/for-of/for/switch/while statement, or an if statement whose parent is not an if
  statement, plus the scores of its children. So \<^verbatim>\<open>if (a) {}\<close> scores 1 at depth 0 and
  2 at depth 1 (inside a block). In the body of another if it is reached at depth 1, and
  scores 2, when that if is scored at depth 0 with \<^verbatim>\<open>topLevel = false\<close> (3 in all); when
  that if is scored with \<^verbatim>\<open>topLevel = true\<close> the body stays at depth 0 and the nested
  if scores 1 (2 in all).
\<close>

theorem nesting_increment:
  "(nodeCost parent node topLevel depth namedAncestors = Inr r \<longrightarrow>
      (\<exists>inherent namedAncestorsOfChildren.
          inherentIncrement parent node namedAncestors = Inr inherent
        \<and> maybeAddNodeToNamedAncestors node namedAncestors = Inr namedAncestorsOfChildren
        \<and> score r
          = inherent
            + (if 0 < depth
                  \<and> (kind node \<in> {CatchClause, ConditionalExpression, DoStatement, ForInStatement,
                                   ForOfStatement, ForStatement, SwitchStatement, WhileStatement}
                     \<or> (kind node = IfStatement \<and> kind parent \<noteq> IfStatement))
               then depth else 0)
            + sum_list (map (\<lambda>c. scoreOf (nodeCost (parentOfChildren parent node) c topLevel
                                  depth namedAncestorsOfChildren)) (same (whereAreChildren node)))
            + sum_list (map (\<lambda>c. scoreOf (nodeCost (parentOfChildren parent node) c False
                                  (if topLevel then depth else depth + 1)
                                  namedAncestorsOfChildren)) (below (whereAreChildren node)))))
   \<and> nodeCost parent ifNoElse topLevel 0 namedAncestors = Inr \<lparr>inner = [], score = 1\<rparr>
   \<and> nodeCost (block [ifNoElse]) ifNoElse topLevel 1 namedAncestors
     = Inr \<lparr>inner = [], score = 2\<rparr>
   \<and> nodeCost parent nestedIf False 0 namedAncestors = Inr \<lparr>inner = [], score = 3\<rparr>
   \<and> nodeCost parent nestedIf True 0 namedAncestors = Inr \<lparr>inner = [], score = 2\<rparr>"
proof (intro conjI impI)
  assume "nodeCost parent node topLevel depth namedAncestors = Inr r"
  from nodeCost_score [OF this]
  show "\<exists>inherent namedAncestorsOfChildren.
          inherentIncrement parent node namedAncestors = Inr inherent
        \<and> maybeAddNodeToNamedAncestors node namedAncestors = Inr namedAncestorsOfChildren
        \<and> score r
          = inherent
            + (if 0 < depth
                  \<and> (kind node \<in> {CatchClause, ConditionalExpression, DoStatement, ForInStatement,
                                   ForOfStatement, ForStatement, SwitchStatement, WhileStatement}
                     \<or> (kind node = IfStatement \<and> kind parent \<noteq> IfStatement))
               then depth else 0)
            + sum_list (map (\<lambda>c. scoreOf (nodeCost (parentOfChildren parent node) c topLevel
                                  depth namedAncestorsOfChildren)) (same (whereAreChildren node)))
            + sum_list (map (\<lambda>c. scoreOf (nodeCost (parentOfChildren parent node) c False
                                  (if topLevel then depth else depth + 1)
                                  namedAncestorsOfChildren)) (below (whereAreChildren node)))"
    by (auto simp: nestingIncrement_def)
next
  show "nodeCost parent ifNoElse topLevel 0 namedAncestors = Inr \<lparr>inner = [], score = 1\<rparr>"
    by (simp add: ifNoElse_def engine trees)
next
  show "nodeCost (block [ifNoElse]) ifNoElse topLevel 1 namedAncestors
        = Inr \<lparr>inner = [], score = 2\<rparr>"
    by (simp add: ifNoElse_def engine trees)
next
  show "nodeCost parent nestedIf False 0 namedAncestors = Inr \<lparr>inner = [], score = 3\<rparr>"
    by (rule nestedIf_not_topLevel)
next
  show "nodeCost parent nestedIf True 0 namedAncestors = Inr \<lparr>inner = [], score = 2\<rparr>"
    by (rule nestedIf_topLevel)
qed

theorem nesting_increment_witness:
  "\<exists>inherent namedAncestorsOfChildren.
      inherentIncrement (block [ifNoElse]) ifNoElse [] = Inr inherent
    \<and> maybeAddNodeToNamedAncestors ifNoElse [] = Inr namedAncestorsOfChildren
    \<and> score \<lparr>inner = [], score = 2\<rparr>
      = inherent + 1
        + sum_list (map (\<lambda>c. scoreOf (nodeCost ifNoElse c False 1 namedAncestorsOfChildren))
                     (same (whereAreChildren ifNoElse)))
        + sum_list (map (\<lambda>c. scoreOf (nodeCost ifNoElse c False (1 + 1)
                                         namedAncestorsOfChildren))
                     (below (whereAreChildren ifNoElse)))"
proof -
  have a: "nodeCost (block [ifNoElse]) ifNoElse False 1 [] = Inr \<lparr>inner = [], score = 2\<rparr>"
    by (simp add: ifNoElse_def engine trees)
  have k: "kind ifNoElse = IfStatement" "kind (block [ifNoElse]) \<noteq> IfStatement"
    "parentOfChildren (block [ifNoElse]) ifNoElse = ifNoElse"
    by (simp_all add: ifNoElse_def trees parentOfChildren_def)
  from nesting_increment [of "block [ifNoElse]" ifNoElse False 1 "[]"
         "\<lparr>inner = [], score = 2\<rparr>"] a k
  show ?thesis by simp
qed

text \<open>
  In a file, what the nested if adds to the score of \<^verbatim>\<open>if (b) { ... }\<close> is not 2: the
  file \<^verbatim>\<open>if (b) { if (a) {} }\<close> scores 2 and the file \<^verbatim>\<open>if (b) {}\<close> scores 1.
\<close>

theorem nested_if_in_file_counterexample:
  "scoreOf (fileCost (sourceFile [nestedIf]))
   - scoreOf (fileCost (sourceFile [ifStatement (ident ''b'') (block [])])) \<noteq> 2"
  by (simp add: scoreOf_def fileCost_def nestedIf_def ifNoElse_def engine trees)

subsection \<open>Runs of one binary operator\<close>

lemma kind_sameOperatorRun: "kind (sameOperatorRun operator n) = BinaryExpression"
  by (cases n) (simp_all add: binaryExpression_def)

lemma operator_token_cost:
  "isOperatorToken operator \<Longrightarrow>
   nodeCost parent (token operator t) topLevel depth anc = Inr \<lparr>inner = [], score = 0\<rparr>"
  by (cases operator) (simp_all add: isOperatorToken_def engine trees)

lemma operator_token_kinds:
  "isOperatorToken operator \<Longrightarrow>
   operator \<noteq> IfStatement \<and> operator \<noteq> BinaryExpression \<and> operator \<noteq> CallExpression
   \<and> operator \<noteq> SyntaxList \<and> operator \<noteq> ClassDeclaration \<and> operator \<noteq> ModuleDeclaration
   \<and> operator \<noteq> FunctionDeclaration \<and> operator \<noteq> FunctionExpression
   \<and> operator \<noteq> ArrowFunction \<and> operator \<noteq> MethodDeclaration
   \<and> operator \<noteq> GetAccessor \<and> operator \<noteq> SetAccessor"
  by (cases operator) (simp_all add: isOperatorToken_def)

lemmas binaryEngine = binaryExpression_def nodeCost_Node [of _ BinaryExpression]
  nodeCost_Node [of _ Identifier] operator_token_cost [unfolded token_def]
  kind_sameOperatorRun inherentIncrement_def nestingIncrement_def
  maybeAddNodeToNamedAncestors_def whereAreChildren_def bodyPositions_def
  isNamedDeclarationOfContainer_def declaredName_def isFunctionNode_def isAccessor_def
  isBreakOrContinueToLabel_def parentOfChildren_def getChildAt_def Let_def token_def ident_def

text \<open>Under a parent whose second child is the same operator, a run adds nothing.\<close>

lemma run_inside_same_operator:
  "isOperatorToken operator \<Longrightarrow>
   map_option kind (getChildAt parent 1) = Some operator \<Longrightarrow>
   nodeCost parent (sameOperatorRun operator n) topLevel depth anc
   = Inr \<lparr>inner = [], score = 0\<rparr>"
proof (induction n arbitrary: parent topLevel)
  case 0
  then show ?case
    using operator_token_kinds [of operator] by (simp add: binaryEngine)
next
  case (Suc n)
  have shorter: "\<And>t p r tl. nodeCost (Node BinaryExpression t p
                           [sameOperatorRun operator n, Node operator ''op'' (0, 0) [], r])
                  (sameOperatorRun operator n) tl depth anc
                = Inr \<lparr>inner = [], score = 0\<rparr>"
    by (rule Suc.IH [OF Suc.prems(1)]) (simp add: getChildAt_def)
  show ?case
    using Suc.prems operator_token_kinds [of operator] by (simp add: binaryEngine shorter)
qed

lemma run_under_other_operator:
  assumes "isOperatorToken operator"
    and "map_option kind (getChildAt parent 1) \<noteq> Some operator"
  shows "nodeCost parent (sameOperatorRun operator n) topLevel depth anc
         = Inr \<lparr>inner = [], score = 1\<rparr>"
proof (cases n)
  case 0
  then show ?thesis
    using assms operator_token_kinds [of operator] by (simp add: binaryEngine)
next
  case (Suc m)
  have shorter: "\<And>t p r tl. nodeCost (Node BinaryExpression t p
                           [sameOperatorRun operator m, Node operator ''op'' (0, 0) [], r])
                  (sameOperatorRun operator m) tl depth anc
                = Inr \<lparr>inner = [], score = 0\<rparr>"
    by (rule run_inside_same_operator [OF assms(1)]) (simp add: getChildAt_def)
  show ?thesis
    using Suc assms operator_token_kinds [of operator] by (simp add: binaryEngine shorter)
qed

text \<open>
  C4. In \<^verbatim>\<open>const x = a = b;\<close> the parent of the binary expression \<^verbatim>\<open>a = b\<close> is the
  variable declaration, which is not a binary expression and whose second child is the token
  \<^verbatim>\<open>=\<close>: \<^verbatim>\<open>nodeCost\<close> adds nothing for the binary expression and the file scores 0,
  where a binary expression whose parent is not a binary expression with the same operator
  is to add 1. The same expression as a statement, \<^verbatim>\<open>a = b;\<close>, scores 1.
\<close>

theorem assignment_in_declaration:
  "kind (variableDeclaration ''x'' assignment) \<noteq> BinaryExpression
   \<and> kind assignment = BinaryExpression
   \<and> inherentIncrement (variableDeclaration ''x'' assignment) assignment [] = Inr 0
   \<and> fileCost (sourceFile [variableStatement [variableDeclaration ''x'' assignment]])
     = Inr \<lparr>inner = [], score = 0\<rparr>
   \<and> fileCost (sourceFile [expressionStatement assignment])
     = Inr \<lparr>inner = [], score = 1\<rparr>"
proof (intro conjI)
  show "kind (variableDeclaration ''x'' assignment) \<noteq> BinaryExpression"
    by (simp add: variableDeclaration_def)
  show "kind assignment = BinaryExpression"
    by (simp add: assignment_def binaryExpression_def)
  show "inherentIncrement (variableDeclaration ''x'' assignment) assignment [] = Inr 0"
    by (simp add: assignment_def engine trees)
  show "fileCost (sourceFile [variableStatement [variableDeclaration ''x'' assignment]])
        = Inr \<lparr>inner = [], score = 0\<rparr>"
    by (simp add: assignment_def fileCost_def engine trees)
  show "fileCost (sourceFile [expressionStatement assignment])
        = Inr \<lparr>inner = [], score = 1\<rparr>"
    by (simp add: assignment_def fileCost_def engine trees)
qed

subsection \<open>Recursive calls\<close>

text \<open>
  The increment of a call expression whose called name resolves: 1 when the name is one of
  the named ancestors, 0 when it is none of them.
\<close>

lemma call_increment:
  "kind node = CallExpression \<Longrightarrow> getCalledFunctionName node = Inr calledFunctionName \<Longrightarrow>
   inherentIncrement parent node namedAncestors
   = Inr (if calledFunctionName \<in> set namedAncestors then 1 else 0)"
  by (simp add: inherentIncrement_def isBreakOrContinueToLabel_def recursionIncrement_mem)

text \<open>
  The spec's example (8): the arrow function of \<^verbatim>\<open>const handler = () => {};\<close> is reported
  under the name of the variable.
\<close>

lemma arrow_function_named_by_declaration:
  "fileCost (sourceFile [variableStatement [variableDeclaration ''handler'' (arrowFunction [])]])
   = Inr \<lparr>inner = [FunctionOutput ''handler'' 0 0 0 []], score = 0\<rparr>"
  by (simp add: fileCost_def engine trees)

text \<open>
  C5. For the generator \<^verbatim>\<open>function* fact() { return fact(); }\<close>
  \<^verbatim>\<open>getFunctionNodeName\<close> returns the text of the child after the \<^verbatim>\<open>function\<close>
  keyword, which is the asterisk: the named ancestors of the body are \<^verbatim>\<open>["*"]\<close>, the call
  of \<^verbatim>\<open>fact\<close> gets no increment and the file scores 0, where a function named
  \<^verbatim>\<open>fact\<close> that calls \<^verbatim>\<open>fact\<close> is to gain 1. The file
  \<^verbatim>\<open>function fact() { return fact(); }\<close> scores 1.
\<close>

theorem generator_calling_itself:
  "getFunctionNodeName generatorCallingItself None = Inr ''*''
   \<and> maybeAddNodeToNamedAncestors generatorCallingItself [] = Inr [''*'']
   \<and> fileCost (sourceFile [generatorCallingItself])
     = Inr \<lparr>inner = [FunctionOutput ''*'' 0 0 0 []], score = 0\<rparr>
   \<and> fileCost (sourceFile [factCallingFact])
     = Inr \<lparr>inner = [FunctionOutput ''fact'' 0 0 1 []], score = 1\<rparr>"
proof (intro conjI)
  show "getFunctionNodeName generatorCallingItself None = Inr ''*''"
    by (simp add: generatorCallingItself_def engine trees)
  show "maybeAddNodeToNamedAncestors generatorCallingItself [] = Inr [''*'']"
    by (simp add: generatorCallingItself_def engine trees)
  show "fileCost (sourceFile [generatorCallingItself])
        = Inr \<lparr>inner = [FunctionOutput ''*'' 0 0 0 []], score = 0\<rparr>"
    by (simp add: generatorCallingItself_def fileCost_def engine trees)
  show "fileCost (sourceFile [factCallingFact])
        = Inr \<lparr>inner = [FunctionOutput ''fact'' 0 0 1 []], score = 1\<rparr>"
    by (rule fileCost_factCallingFact)
qed

subsection \<open>Scores are not negative\<close>

lemma inherentIncrement_nonneg:
  "inherentIncrement parent node namedAncestors = Inr inherent \<Longrightarrow> 0 \<le> inherent"
  by (auto simp: inherentIncrement_def recursionIncrement_mem Let_def
      split: if_splits option.splits sum.splits)

lemma nestingIncrement_nonneg: "0 \<le> nestingIncrement parent node depth"
  by (simp add: nestingIncrement_def)

lemma nodeCost_nonneg:
  "nodeCost parent node topLevel depth namedAncestors = Inr r \<Longrightarrow> 0 \<le> score r"
proof (induction "size node" arbitrary: parent node topLevel depth namedAncestors r
       rule: less_induct)
  case less
  from nodeCost_score [OF less.prems] obtain inherent anc' where
    inh: "inherentIncrement parent node namedAncestors = Inr inherent"
    and sameOk: "\<forall>c\<in>set (same (whereAreChildren node)).
               \<exists>cc. nodeCost (parentOfChildren parent node) c topLevel depth anc' = Inr cc"
    and belowOk: "\<forall>c\<in>set (below (whereAreChildren node)).
               \<exists>cc. nodeCost (parentOfChildren parent node) c False
                       (if topLevel then depth else depth + 1) anc' = Inr cc"
    and total: "score r = inherent + nestingIncrement parent node depth
             + sum_list (map (\<lambda>c. scoreOf (nodeCost (parentOfChildren parent node) c topLevel
                                  depth anc')) (same (whereAreChildren node)))
             + sum_list (map (\<lambda>c. scoreOf (nodeCost (parentOfChildren parent node) c False
                                  (if topLevel then depth else depth + 1) anc'))
                          (below (whereAreChildren node)))"
    by blast
  have sameNonneg: "0 \<le> scoreOf (nodeCost (parentOfChildren parent node) c topLevel depth anc')"
    if "c \<in> set (same (whereAreChildren node))" for c
  proof -
    from sameOk that obtain cc where
      cc: "nodeCost (parentOfChildren parent node) c topLevel depth anc' = Inr cc" by blast
    from that have "size c < size node" by (rule whereAreChildren_same_size)
    from less.hyps [OF this cc] cc show ?thesis by (simp add: scoreOf_def)
  qed
  have belowNonneg: "0 \<le> scoreOf (nodeCost (parentOfChildren parent node) c False
                                 (if topLevel then depth else depth + 1) anc')"
    if "c \<in> set (below (whereAreChildren node))" for c
  proof -
    from belowOk that obtain cc where
      cc: "nodeCost (parentOfChildren parent node) c False
             (if topLevel then depth else depth + 1) anc' = Inr cc" by blast
    from that have "size c < size node" by (rule whereAreChildren_below_size)
    from less.hyps [OF this cc] cc show ?thesis by (simp add: scoreOf_def)
  qed
  have "0 \<le> sum_list (map (\<lambda>c. scoreOf (nodeCost (parentOfChildren parent node) c topLevel
                                  depth anc')) (same (whereAreChildren node)))"
    by (rule sum_list_nonneg) (auto dest: sameNonneg)
  moreover
  have "0 \<le> sum_list (map (\<lambda>c. scoreOf (nodeCost (parentOfChildren parent node) c False
                                  (if topLevel then depth else depth + 1) anc'))
                          (below (whereAreChildren node)))"
    by (rule sum_list_nonneg) (auto dest: belowNonneg)
  ultimately show ?case
    using total inherentIncrement_nonneg [OF inh] nestingIncrement_nonneg [of parent node depth]
    by linarith
qed

lemma mapThrowing_Inr:
  "mapThrowing f xs = Inr ys \<Longrightarrow> \<forall>y\<in>set ys. \<exists>x\<in>set xs. f x = Inr y"
  by (induction xs arbitrary: ys) (auto split: sum.splits)

lemma foldl_add_nonneg:
  "(\<forall>x\<in>set xs. (0::int) \<le> x) \<Longrightarrow> 0 \<le> a \<Longrightarrow> 0 \<le> foldl (+) a xs"
  by (induction xs arbitrary: a) auto

text \<open>
  C6. A score that \<^verbatim>\<open>nodeCost\<close> returns, for any node, parent, depth and named ancestors,
  and a score that \<^verbatim>\<open>fileCost\<close> returns, for any tree, is an integer that is not
  negative. The score is a function of the tree: two results of \<^verbatim>\<open>fileCost\<close> for one
  tree have the same score (the engine reads nothing but its arguments).
\<close>

theorem score_nonnegative:
  "(nodeCost parent node topLevel depth namedAncestors = Inr r \<longrightarrow> 0 \<le> score r)
   \<and> (fileCost file = Inr out \<longrightarrow> 0 \<le> score out)
   \<and> (fileCost file = Inr out \<longrightarrow> fileCost file = Inr out' \<longrightarrow> score out = score out')"
proof (intro conjI impI)
  assume "nodeCost parent node topLevel depth namedAncestors = Inr r"
  then show "0 \<le> score r" by (rule nodeCost_nonneg)
next
  assume "fileCost file = Inr out"
  then obtain childCosts where
    costs: "mapThrowing (\<lambda>elem. nodeCost file elem True 0 []) (getChildren file) = Inr childCosts"
    and out: "score out = foldl (+) 0 (map score childCosts)"
    by (auto simp: fileCost_def split: sum.splits)
  from mapThrowing_Inr [OF costs] have "\<forall>c\<in>set childCosts. 0 \<le> score c"
    by (blast intro: nodeCost_nonneg)
  then show "0 \<le> score out"
    unfolding out by (intro foldl_add_nonneg) auto
next
  assume "fileCost file = Inr out" "fileCost file = Inr out'"
  then show "score out = score out'" by simp
qed

theorem score_nonnegative_witness:
  "0 \<le> score \<lparr>inner = [], score = 3\<rparr>
   \<and> 0 \<le> score \<lparr>inner = [FunctionOutput ''fact'' 0 0 1 []], score = 1\<rparr>"
proof -
  have a: "nodeCost (sourceFile []) nestedIf False 0 [] = Inr \<lparr>inner = [], score = 3\<rparr>"
    by (rule nestedIf_not_topLevel)
  have b: "fileCost (sourceFile [factCallingFact])
           = Inr \<lparr>inner = [FunctionOutput ''fact'' 0 0 1 []], score = 1\<rparr>"
    by (rule fileCost_factCallingFact)
  from score_nonnegative [of "sourceFile []" nestedIf False 0 "[]" "\<lparr>inner = [], score = 3\<rparr>"
         "sourceFile [factCallingFact]"
         "\<lparr>inner = [FunctionOutput ''fact'' 0 0 1 []], score = 1\<rparr>"] a b
  show ?thesis by blast
qed

subsection \<open>The two engines\<close>

lemma NodeCost_Node:
  "NodeCost (Node k t ps cs) depth =
     (let inherent =
            (if k = CatchClause \<or> k = ConditionalExpression \<or> k = ForInStatement
                \<or> k = ForOfStatement \<or> k = ForStatement \<or> k = IfStatement
                \<or> k = SwitchStatement \<or> k = WhileStatement
                \<or> isBreakOrContinueToLabel (Node k t ps cs)
             then 1 else 0);
          nesting =
            (if depth > 0 \<and>
                (k = ConditionalExpression \<or> k = ForInStatement \<or> k = ForOfStatement
                 \<or> k = ForStatement \<or> k = IfStatement \<or> k = SwitchStatement
                 \<or> k = WhileStatement)
             then depth else 0);
          sofar = 0 + inherent + nesting
      in if k = ForInStatement \<or> k = ForOfStatement \<or> k = ForStatement
            \<or> (depth \<noteq> 0
                \<and> (k = ArrowFunction \<or> k = FunctionDeclaration \<or> k = FunctionExpression
                    \<or> k = MethodDeclaration))
         then Inr sofar
         else if k = CatchClause then
           includeAll (\<lambda>child d. NodeCost child d) cs (depth + 1) sofar
         else if k = ConditionalExpression then
           (case ConditionalExpressionCost (\<lambda>child d. NodeCost child d) (Node k t ps cs) depth of
              Inl e \<Rightarrow> Inl e | Inr s \<Rightarrow> Inr (sofar + s))
         else if k = DoStatement then
           (case DoStatementCost (\<lambda>child d. NodeCost child d) (Node k t ps cs) depth of
              Inl e \<Rightarrow> Inl e | Inr s \<Rightarrow> Inr (sofar + s))
         else if k = IfStatement then
           (case IfStatementCost (\<lambda>child d. NodeCost child d) (Node k t ps cs) depth of
              Inl e \<Rightarrow> Inl e | Inr s \<Rightarrow> Inr (sofar + s))
         else if k = SwitchStatement then
           (case SwitchStatementCost (\<lambda>child d. NodeCost child d) (Node k t ps cs) depth of
              Inl e \<Rightarrow> Inl e | Inr s \<Rightarrow> Inr (sofar + s))
         else if k = WhileStatement then
           (case WhileStatementCost (\<lambda>child d. NodeCost child d) (Node k t ps cs) depth of
              Inl e \<Rightarrow> Inl e | Inr s \<Rightarrow> Inr (sofar + s))
         else includeAll (\<lambda>child d. NodeCost child d) cs depth sofar)"
  by (simp add: NodeCost.simps [of "Node k t ps cs"])

lemma calcElemCost_Node:
  "calcElemCost (Node k t ps cs) depth =
     (case addScores (\<lambda>child. calcElemCost child 0) cs 0 of
        Inl e \<Rightarrow> Inl e
      | Inr sofar \<Rightarrow>
          (case NodeCost (Node k t ps cs) depth of
             Inl e \<Rightarrow> Inl e
           | Inr nodeCostScore \<Rightarrow> Inr (sofar + nodeCostScore)))"
  by (simp add: calcElemCost.simps [of "Node k t ps cs"])

lemmas firstEngine = NodeCost_Node calcElemCost_Node calcFileCost_def includeAll_def
  ConditionalExpressionCost_def DoStatementCost_def IfStatementCost_def
  SwitchStatementCost_def WhileStatementCost_def nextChild_def isBreakOrContinueToLabel_def
  isIdentifier_def Let_def

lemma calcFileCost_conjunctionFile: "calcFileCost conjunctionFile = Inr 0"
  by (simp add: conjunctionFile_def firstEngine trees)

lemma fileCost_conjunctionFile: "fileCost conjunctionFile = Inr \<lparr>inner = [], score = 1\<rparr>"
  by (simp add: conjunctionFile_def fileCost_def engine trees)

text \<open>
  C7. The two engines are not the same function of the tree. For the file \<^verbatim>\<open>a && b;\<close>
  \<^verbatim>\<open>calcFileCost\<close> returns the score 0 and \<^verbatim>\<open>fileCost\<close> the score 1. They differ in
  the constructs with a nesting increment: at depth 1 a catch clause scores 1 with
  \<^verbatim>\<open>NodeCost\<close> and 2 with \<^verbatim>\<open>nodeCost\<close>. They differ in the condition for an if: at depth
  2 the if of an else-if link, \<^verbatim>\<open>if (b) {} else {}\<close>, gets the nesting increment from
  \<^verbatim>\<open>NodeCost\<close> (score 3) and none from \<^verbatim>\<open>nodeCost\<close> (score 2).
\<close>

theorem engines_not_equivalent:
  "\<not> (\<forall>file. calcFileCost file = map_sum id score (fileCost file))
   \<and> calcFileCost conjunctionFile = Inr 0
   \<and> fileCost conjunctionFile = Inr \<lparr>inner = [], score = 1\<rparr>
   \<and> NodeCost (catchClause ''e'' []) 1 = Inr 1
   \<and> nodeCost (sourceFile []) (catchClause ''e'' []) False 1 []
     = Inr \<lparr>inner = [], score = 2\<rparr>
   \<and> NodeCost elseIfLink 2 = Inr 3
   \<and> nodeCost ifElseIfElse elseIfLink False 2 [] = Inr \<lparr>inner = [], score = 2\<rparr>"
proof (intro conjI)
  show "\<not> (\<forall>file. calcFileCost file = map_sum id score (fileCost file))"
  proof
    assume "\<forall>file. calcFileCost file = map_sum id score (fileCost file)"
    then have "calcFileCost conjunctionFile = map_sum id score (fileCost conjunctionFile)"
      by blast
    then show False
      by (simp add: calcFileCost_conjunctionFile fileCost_conjunctionFile)
  qed
  show "calcFileCost conjunctionFile = Inr 0"
    by (rule calcFileCost_conjunctionFile)
  show "fileCost conjunctionFile = Inr \<lparr>inner = [], score = 1\<rparr>"
    by (rule fileCost_conjunctionFile)
  show "NodeCost (catchClause ''e'' []) 1 = Inr 1"
    by (simp add: firstEngine trees)
  show "nodeCost (sourceFile []) (catchClause ''e'' []) False 1 []
        = Inr \<lparr>inner = [], score = 2\<rparr>"
    by (simp add: engine trees)
  show "NodeCost elseIfLink 2 = Inr 3"
    by (simp add: elseIfLink_def firstEngine trees)
  show "nodeCost ifElseIfElse elseIfLink False 2 [] = Inr \<lparr>inner = [], score = 2\<rparr>"
    by (simp add: ifElseIfElse_def elseIfLink_def engine trees)
qed

subsection \<open>Calls whose target is not an identifier\<close>






text \<open>In a run that returns, each of these calls has returned.\<close>

lemma mapThrowing_all_returned:
  "mapThrowing f xs = Inr ys \<Longrightarrow> \<forall>x\<in>set xs. \<exists>y. f x = Inr y"
  by (induction xs arbitrary: ys) (auto split: sum.splits)

lemma callsOf_returns:
  "callsOf sourceFileNode parent node topLevel depth namedAncestors \<Longrightarrow>
   fileCost sourceFileNode = Inr out \<Longrightarrow>
   \<exists>r. nodeCost parent node topLevel depth namedAncestors = Inr r"
proof (induction rule: callsOf.induct)
  case (fileChild elem)
  from fileChild.prems obtain childCosts where
    "mapThrowing (\<lambda>elem. nodeCost sourceFileNode elem True 0 []) (getChildren sourceFileNode)
     = Inr childCosts"
    by (auto simp: fileCost_def split: sum.splits)
  from mapThrowing_all_returned [OF this] fileChild.hyps show ?case by blast
next
  case (sameChild parent node topLevel depth namedAncestors inherent namedAncestorsOfChildren child)
  then obtain r where "nodeCost parent node topLevel depth namedAncestors = Inr r" by blast
  from nodeCost_score [OF this] obtain anc' where
    "maybeAddNodeToNamedAncestors node namedAncestors = Inr anc'"
    and "\<forall>c\<in>set (same (whereAreChildren node)).
           \<exists>cc. nodeCost (parentOfChildren parent node) c topLevel depth anc' = Inr cc"
    by blast
  with sameChild.hyps(3,4) show ?case by simp
next
  case (belowChild parent node topLevel depth namedAncestors inherent namedAncestorsOfChildren
        child)
  then obtain r where "nodeCost parent node topLevel depth namedAncestors = Inr r" by blast
  from nodeCost_score [OF this] obtain anc' where
    "maybeAddNodeToNamedAncestors node namedAncestors = Inr anc'"
    and "\<forall>c\<in>set (below (whereAreChildren node)).
           \<exists>cc. nodeCost (parentOfChildren parent node) c False
                   (if topLevel then depth else depth + 1) anc' = Inr cc"
    by blast
  with belowChild.hyps(3,4) show ?case by simp
qed






end
